theory Spec2Isabelle
  imports Complex_Main "HOL-Library.Multiset"
begin

section \<open>Meta-evaluation service: data model\<close>

text \<open>
  A shallow embedding of \<^verbatim>\<open>src/services/meta_evaluation_service.py\<close>.

  Python floats are idealised as \<^typ>\<open>real\<close>: every comparison, branch and arithmetic
  expression is the one of the source, evaluated exactly. Python exceptions are values
  of \<open>exn\<close>; a \<^verbatim>\<open>try\<close> body is a function into \<open>exn + 'a\<close> and the \<^verbatim>\<open>except\<close>
  clause is the case distinction on its result. What the source obtains from outside
  (database rows, the wall clock, the random generator, the market-data indicators) is
  an explicit argument.
\<close>

datatype exn = ConnectionError | TypeError | ZeroDivisionError | StopIteration | IndexError

text \<open>\<^verbatim>\<open>datetime.now()\<close>: the fields of a Python \<^verbatim>\<open>datetime\<close>.\<close>

record datetime =
  year :: nat
  month :: nat
  day :: nat
  hour :: nat
  minute :: nat
  second :: nat
  microsecond :: nat

subsection \<open>String formatting used by the service\<close>

fun digits :: "nat \<Rightarrow> string" where
  "digits n = (if n < 10 then [''0123456789'' ! n] else digits (n div 10) @ [''0123456789'' ! (n mod 10)])"

declare digits.simps [simp del]

definition zpad :: "nat \<Rightarrow> nat \<Rightarrow> string" where
  \<comment> \<open>decimal rendering, zero-padded on the left to at least \<open>w\<close> characters\<close>
  "zpad w n = replicate (w - length (digits n)) (CHR ''0'') @ digits n"

definition strftime_Ymd_HMS :: "datetime \<Rightarrow> string" where
  \<comment> \<open>\<^verbatim>\<open>dt.strftime('%Y%m%d_%H%M%S')\<close>\<close>
  "strftime_Ymd_HMS dt =
     zpad 4 (year dt) @ zpad 2 (month dt) @ zpad 2 (day dt) @ ''_'' @
     zpad 2 (hour dt) @ zpad 2 (minute dt) @ zpad 2 (second dt)"

definition isoformat :: "datetime \<Rightarrow> string" where
  \<comment> \<open>\<^verbatim>\<open>dt.isoformat()\<close>: the fraction is printed only when the microsecond is not 0\<close>
  "isoformat dt =
     zpad 4 (year dt) @ ''-'' @ zpad 2 (month dt) @ ''-'' @ zpad 2 (day dt) @ ''T'' @
     zpad 2 (hour dt) @ '':'' @ zpad 2 (minute dt) @ '':'' @ zpad 2 (second dt) @
     (if microsecond dt = 0 then [] else ''.'' @ zpad 6 (microsecond dt))"

definition round_half_even :: "real \<Rightarrow> int" where
  "round_half_even x =
     (let f = \<lfloor>x\<rfloor>; d = x - of_int f
      in if d < 1 / 2 then f else if 1 / 2 < d then f + 1 else if even f then f else f + 1)"

definition format_pct2 :: "real \<Rightarrow> string" where
  \<comment> \<open>\<^verbatim>\<open>f"{x:.2%}"\<close>: the value times 100, fixed point with two decimals, then a percent sign\<close>
  "format_pct2 x =
     (let n = nat (round_half_even (\<bar>x\<bar> * 10000))
      in (if x < 0 then ''-'' else []) @ digits (n div 100) @ ''.'' @ zpad 2 (n mod 100) @ ''%'')"

subsection \<open>Random draws\<close>

text \<open>
  \<^verbatim>\<open>random.uniform(a, b)\<close> is \<^verbatim>\<open>a + (b - a) * random()\<close>; the value \<open>u\<close> of
  \<^verbatim>\<open>random()\<close> lies in \<open>[0, 1)\<close>. The generator is the sequence of its successive
  outputs, \<open>rnd 0\<close>, \<open>rnd 1\<close>, ...
\<close>

definition uniform :: "real \<Rightarrow> real \<Rightarrow> real \<Rightarrow> real" where
  "uniform a b u = a + (b - a) * u"

definition unit_draws :: "(nat \<Rightarrow> real) \<Rightarrow> bool" where
  "unit_draws rnd = (\<forall>n. 0 \<le> rnd n \<and> rnd n < 1)"

section \<open>Regime classifier\<close>

text \<open>
  The indicators both regime functions compute from the provider's 30-day history with
  pandas and numpy (lines 179-181 and 412-419): annualised volatility, total-period
  trend and volume ratio. The provider call either raises, returns an empty frame, or
  returns a frame with these indicators.
\<close>

record indicators =
  ind_volatility :: real
  ind_trend :: real
  ind_volume_ratio :: real

datatype hist = Empty_frame | Frame indicators

definition detect_market_regime :: "exn + hist \<Rightarrow> string" where
  "detect_market_regime fetched =
     (case fetched of
        Inl e \<Rightarrow> ''neutral''
      | Inr Empty_frame \<Rightarrow> ''neutral''
      | Inr (Frame ind) \<Rightarrow>
          (let volatility = ind_volatility ind; trend = ind_trend ind
           in if volatility > 0.25 then ''volatile''
              else if trend > 0.05 then ''bull''
              else if trend < - 0.05 then ''bear''
              else if \<bar>trend\<bar> < 0.02 then ''neutral''
              else ''trending''))"

record market_indicators =
  rsi :: real
  macd :: real
  bollinger_position :: real

record regime_analysis =
  ra_regime :: string
  ra_confidence :: real
  ra_volatility :: real
  ra_trend_strength :: real
  ra_volume_ratio :: real
  ra_trend_direction :: string
  ra_market_indicators :: market_indicators
  ra_timestamp :: datetime

definition get_fallback_regime_analysis :: "datetime \<Rightarrow> regime_analysis" where
  "get_fallback_regime_analysis now =
     \<lparr> ra_regime = ''neutral'', ra_confidence = 0.6, ra_volatility = 0.15,
       ra_trend_strength = 0.02, ra_volume_ratio = 1.0, ra_trend_direction = ''neutral'',
       ra_market_indicators = \<lparr> rsi = 50.0, macd = 0.0, bollinger_position = 0.5 \<rparr>,
       ra_timestamp = now \<rparr>"

definition analyze_market_regime :: "exn + hist \<Rightarrow> (nat \<Rightarrow> real) \<Rightarrow> datetime \<Rightarrow> regime_analysis" where
  "analyze_market_regime fetched rnd now =
     (case fetched of
        Inl e \<Rightarrow> get_fallback_regime_analysis now
      | Inr Empty_frame \<Rightarrow> get_fallback_regime_analysis now
      | Inr (Frame ind) \<Rightarrow>
          (let volatility = ind_volatility ind; trend = ind_trend ind;
               (regime, confidence) =
                 (if volatility > 0.25 then (''volatile'', min 0.95 (volatility * 2))
                  else if trend > 0.05 then (''bull'', min 0.95 (\<bar>trend\<bar> * 10))
                  else if trend < - 0.05 then (''bear'', min 0.95 (\<bar>trend\<bar> * 10))
                  else if \<bar>trend\<bar> < 0.02 then (''neutral'', 0.8)
                  else (''trending'', min 0.95 (\<bar>trend\<bar> * 8)))
           in \<lparr> ra_regime = regime, ra_confidence = confidence, ra_volatility = volatility,
                ra_trend_strength = \<bar>trend\<bar>, ra_volume_ratio = ind_volume_ratio ind,
                ra_trend_direction = (if trend > 0 then ''up'' else ''down''),
                ra_market_indicators =
                  \<lparr> rsi = uniform 30 70 (rnd 0), macd = uniform (- 0.02) 0.02 (rnd 1),
                    bollinger_position = uniform 0.2 0.8 (rnd 2) \<rparr>,
                ra_timestamp = now \<rparr>))"

section \<open>Performance scorer\<close>

record AgentPerformance =
  perf_agent_name :: string
  perf_accuracy :: real
  perf_sharpe_ratio :: real
  perf_total_return :: real
  perf_max_drawdown :: real
  perf_win_rate :: real
  perf_confidence :: real
  perf_response_time :: real
  perf_regime :: string
  perf_timestamp :: datetime

text \<open>
  A row of \<^verbatim>\<open>agent_signals\<close> as selected at lines 206-213. The table is written by
  other components, so a column may be NULL (Python \<^verbatim>\<open>None\<close>).
\<close>

record signal_row =
  sig_confidence :: "real option"
  sig_predicted_direction :: "string option"
  sig_actual_direction :: "string option"
  sig_timestamp :: datetime

definition py_float :: "real option \<Rightarrow> exn + real" where
  \<comment> \<open>\<^verbatim>\<open>float(v)\<close>: \<^verbatim>\<open>float(None)\<close> raises TypeError\<close>
  "py_float v = (case v of None \<Rightarrow> Inl TypeError | Some x \<Rightarrow> Inr x)"

fun floats :: "real option list \<Rightarrow> exn + real list" where
  \<comment> \<open>\<^verbatim>\<open>[float(v) for v in vs]\<close>\<close>
  "floats [] = Inr []"
| "floats (v # vs) =
     (case py_float v of
        Inl e \<Rightarrow> Inl e
      | Inr x \<Rightarrow> (case floats vs of Inl e \<Rightarrow> Inl e | Inr xs \<Rightarrow> Inr (x # xs)))"

definition mean :: "real list \<Rightarrow> real" where
  \<comment> \<open>\<^verbatim>\<open>np.mean\<close> of a non-empty list\<close>
  "mean xs = sum_list xs / real (length xs)"

definition performance_body ::
  "string \<Rightarrow> string \<Rightarrow> exn + signal_row list \<Rightarrow> (nat \<Rightarrow> real) \<Rightarrow> datetime \<Rightarrow> exn + AgentPerformance" where
  \<comment> \<open>the \<^verbatim>\<open>try\<close> body of \<^verbatim>\<open>_calculate_agent_performance\<close>, lines 204-253\<close>
  "performance_body agent_name regime fetched rnd now =
     (case fetched of
        Inl e \<Rightarrow> Inl e
      | Inr predictions \<Rightarrow>
          if predictions \<noteq> [] then
            (let total_predictions = length predictions;
                 correct_predictions =
                   length (filter (\<lambda>p. sig_predicted_direction p = sig_actual_direction p) predictions);
                 accuracy = (if total_predictions > 0
                             then real correct_predictions / real total_predictions else 0.5)
             in case floats (map sig_confidence predictions) of
                  Inl e \<Rightarrow> Inl e
                | Inr confidences \<Rightarrow>
                    Inr \<lparr> perf_agent_name = agent_name,
                          perf_accuracy = accuracy,
                          perf_sharpe_ratio = max 0 ((accuracy - 0.5) * 4),
                          perf_total_return = (accuracy - 0.5) * 0.2,
                          perf_max_drawdown = max 0 (0.1 - accuracy * 0.2),
                          perf_win_rate = accuracy,
                          perf_confidence = mean confidences,
                          perf_response_time = uniform 0.1 2.0 (rnd 0),
                          perf_regime = regime,
                          perf_timestamp = now \<rparr>)
          else
            (let base_performance = uniform 0.4 0.7 (rnd 0)
             in Inr \<lparr> perf_agent_name = agent_name,
                      perf_accuracy = base_performance,
                      perf_sharpe_ratio = (base_performance - 0.5) * 2,
                      perf_total_return = (base_performance - 0.5) * 0.15,
                      perf_max_drawdown = 0.1 - base_performance * 0.15,
                      perf_win_rate = base_performance,
                      perf_confidence = base_performance,
                      perf_response_time = uniform 0.5 3.0 (rnd 1),
                      perf_regime = regime,
                      perf_timestamp = now \<rparr>))"

definition calculate_agent_performance ::
  "string \<Rightarrow> string \<Rightarrow> exn + signal_row list \<Rightarrow> (nat \<Rightarrow> real) \<Rightarrow> datetime \<Rightarrow> AgentPerformance" where
  \<comment> \<open>\<^verbatim>\<open>_calculate_agent_performance\<close>: the body, and the \<^verbatim>\<open>except Exception\<close> clause of lines 255-269\<close>
  "calculate_agent_performance agent_name regime fetched rnd now =
     (case performance_body agent_name regime fetched rnd now of
        Inr performance \<Rightarrow> performance
      | Inl e \<Rightarrow>
          \<lparr> perf_agent_name = agent_name, perf_accuracy = 0.5, perf_sharpe_ratio = 0.0,
            perf_total_return = 0.0, perf_max_drawdown = 0.1, perf_win_rate = 0.5,
            perf_confidence = 0.5, perf_response_time = 1.0, perf_regime = regime,
            perf_timestamp = now \<rparr>)"

section \<open>Ranking engine\<close>

text \<open>
  A row of \<^verbatim>\<open>meta_agent_performance\<close> as selected at lines 276-283. The table is
  written only by this service, always with floats.
\<close>

record perf_row =
  row_agent_name :: string
  row_accuracy :: real
  row_sharpe_ratio :: real
  row_total_return :: real
  row_max_drawdown :: real
  row_win_rate :: real
  row_confidence :: real
  row_response_time :: real

text \<open>
  A ranking entry (a Python dict). The key \<^verbatim>\<open>'rank'\<close> is absent (\<open>None\<close>) until the
  ranks are assigned.
\<close>

record ranking =
  rk_agent_name :: string
  rk_rank :: "nat option"
  rk_composite_score :: real
  rk_accuracy :: real
  rk_sharpe_ratio :: real
  rk_total_return :: real
  rk_max_drawdown :: real
  rk_win_rate :: real
  rk_confidence :: real
  rk_response_time :: real

definition agents :: "string list" where
  "agents =
     [''ForecastAgent'', ''MomentumAgent'', ''VolatilityAgent'', ''SentimentAgent'',
      ''RiskAgent'', ''CorrelationAgent'', ''StrategyAgent'', ''RLStrategyAgent'',
      ''EventImpactAgent'', ''DayForecastAgent'']"

definition py_div :: "real \<Rightarrow> real \<Rightarrow> exn + real" where
  \<comment> \<open>float division: a zero divisor raises ZeroDivisionError\<close>
  "py_div a b = (if b = 0 then Inl ZeroDivisionError else Inr (a / b))"

definition score_row :: "perf_row \<Rightarrow> exn + ranking" where
  \<comment> \<open>one iteration of the loop of lines 288-309\<close>
  "score_row perf =
     (case py_div 1.0 (1.0 + row_response_time perf) of
        Inl e \<Rightarrow> Inl e
      | Inr latency_term \<Rightarrow>
          (let composite_score =
                 row_accuracy perf * 0.25 + row_sharpe_ratio perf * 0.20 +
                 row_total_return perf * 0.20 + row_win_rate perf * 0.15 +
                 row_confidence perf * 0.10 + latency_term * 0.10
           in Inr \<lparr> rk_agent_name = row_agent_name perf, rk_rank = None,
                    rk_composite_score = composite_score,
                    rk_accuracy = row_accuracy perf,
                    rk_sharpe_ratio = row_sharpe_ratio perf,
                    rk_total_return = row_total_return perf,
                    rk_max_drawdown = row_max_drawdown perf,
                    rk_win_rate = row_win_rate perf,
                    rk_confidence = row_confidence perf,
                    rk_response_time = row_response_time perf \<rparr>))"

fun score_rows :: "perf_row list \<Rightarrow> exn + ranking list" where
  \<comment> \<open>the loop of lines 287-309; an exception ends it\<close>
  "score_rows [] = Inr []"
| "score_rows (perf # performances) =
     (case score_row perf of
        Inl e \<Rightarrow> Inl e
      | Inr r \<Rightarrow> (case score_rows performances of Inl e \<Rightarrow> Inl e | Inr rs \<Rightarrow> Inr (r # rs)))"

definition sort_reverse :: "('a \<Rightarrow> real) \<Rightarrow> 'a list \<Rightarrow> 'a list" where
  \<comment> \<open>\<^verbatim>\<open>xs.sort(key=k, reverse=True)\<close>: CPython reverses the list, sorts it stably in
      ascending order of the key and reverses the result\<close>
  "sort_reverse k xs = rev (sort_key k (rev xs))"

definition assign_ranks :: "ranking list \<Rightarrow> ranking list" where
  \<comment> \<open>\<^verbatim>\<open>for i, ranking in enumerate(rankings): ranking['rank'] = i + 1\<close>\<close>
  "assign_ranks rankings = map (\<lambda>(i, r). r\<lparr>rk_rank := Some (i + 1)\<rparr>) (enumerate 0 rankings)"

definition fallback_entry :: "(nat \<Rightarrow> real) \<Rightarrow> nat \<times> string \<Rightarrow> ranking" where
  \<comment> \<open>one iteration of the loop of lines 330-343: the entry of the \<open>i\<close>-th agent, which
      takes the draws \<open>2 i\<close> and \<open>2 i + 1\<close> of the generator\<close>
  "fallback_entry rnd = (\<lambda>(i, agent).
     (let base_score = uniform 0.4 0.8 (rnd (2 * i))
      in \<lparr> rk_agent_name = agent, rk_rank = Some (i + 1),
           rk_composite_score = base_score,
           rk_accuracy = base_score,
           rk_sharpe_ratio = (base_score - 0.5) * 2,
           rk_total_return = (base_score - 0.5) * 0.15,
           rk_max_drawdown = 0.1 - base_score * 0.15,
           rk_win_rate = base_score,
           rk_confidence = base_score,
           rk_response_time = uniform 0.5 2.0 (rnd (2 * i + 1)) \<rparr>))"

definition get_fallback_rankings :: "(nat \<Rightarrow> real) \<Rightarrow> string \<Rightarrow> ranking list" where
  "get_fallback_rankings rnd regime =
     assign_ranks (sort_reverse rk_composite_score (map (fallback_entry rnd) (enumerate 0 agents)))"

definition rankings_body :: "exn + perf_row list \<Rightarrow> (nat \<Rightarrow> real) \<Rightarrow> string \<Rightarrow> exn + ranking list" where
  \<comment> \<open>the \<^verbatim>\<open>try\<close> body of \<^verbatim>\<open>_calculate_regime_rankings\<close>, lines 274-321\<close>
  "rankings_body fetched rnd regime =
     (case fetched of
        Inl e \<Rightarrow> Inl e
      | Inr performances \<Rightarrow>
          if performances \<noteq> [] then
            (case score_rows performances of
               Inl e \<Rightarrow> Inl e
             | Inr rankings \<Rightarrow> Inr (assign_ranks (sort_reverse rk_composite_score rankings)))
          else Inr (get_fallback_rankings rnd regime))"

definition calculate_regime_rankings :: "exn + perf_row list \<Rightarrow> (nat \<Rightarrow> real) \<Rightarrow> string \<Rightarrow> ranking list" where
  \<comment> \<open>\<^verbatim>\<open>_calculate_regime_rankings\<close>: the body, and the \<^verbatim>\<open>except Exception\<close> clause of
      lines 323-325\<close>
  "calculate_regime_rankings fetched rnd regime =
     (case rankings_body fetched rnd regime of
        Inr rankings \<Rightarrow> rankings
      | Inl e \<Rightarrow> get_fallback_rankings rnd regime)"

section \<open>Rotation decision engine\<close>

record RotationDecision =
  dec_decision_id :: string
  dec_from_agent :: string
  dec_to_agent :: string
  dec_reason :: string
  dec_confidence :: real
  dec_expected_improvement :: real
  dec_regime :: string
  dec_timestamp :: datetime

definition current_agents :: "string list" where
  \<comment> \<open>the currently active agents, line 364\<close>
  "current_agents = [''ForecastAgent'', ''MomentumAgent'', ''VolatilityAgent'']"

definition worst_active :: "string list \<Rightarrow> ranking list \<Rightarrow> string option" where
  \<comment> \<open>lines 368-374: the first active agent met from the end of the ranking\<close>
  "worst_active active rankings =
     map_option rk_agent_name (find (\<lambda>r. rk_agent_name r \<in> set active) (rev rankings))"

definition score_of :: "string \<Rightarrow> ranking list \<Rightarrow> exn + real" where
  \<comment> \<open>lines 379-380: \<^verbatim>\<open>next(r['composite_score'] for r in rankings if r['agent_name'] == a)\<close>\<close>
  "score_of a rankings =
     (case find (\<lambda>r. rk_agent_name r = a) rankings of
        None \<Rightarrow> Inl StopIteration
      | Some r \<Rightarrow> Inr (rk_composite_score r))"

definition rotation_body ::
  "string list \<Rightarrow> ranking list \<Rightarrow> string \<Rightarrow> datetime \<Rightarrow> datetime \<Rightarrow> exn + RotationDecision option" where
  \<comment> \<open>lines 360-397 of \<^verbatim>\<open>_evaluate_rotation_need\<close>, for a ranking and an active set;
      \<open>now_id\<close> and \<open>now_ts\<close> are the two readings of the clock\<close>
  "rotation_body active rankings current_regime now_id now_ts =
     (if length rankings < 2 then Inr None
      else
        (case rankings of
           [] \<Rightarrow> Inl IndexError
         | r0 # rest \<Rightarrow>
             (let best_agent = rk_agent_name r0;
                  worst_active_agent = worst_active active rankings
              in case worst_active_agent of
                   None \<Rightarrow> Inr None
                 | Some w \<Rightarrow>
                     if w \<noteq> [] \<and> best_agent \<notin> set active then
                       (let best_score = rk_composite_score r0
                        in case score_of w rankings of
                             Inl e \<Rightarrow> Inl e
                           | Inr worst_score \<Rightarrow>
                               (let improvement = best_score - worst_score
                                in if improvement > 0.1 then
                                     Inr (Some
                                       \<lparr> dec_decision_id = ''rotation_'' @ strftime_Ymd_HMS now_id,
                                         dec_from_agent = w,
                                         dec_to_agent = best_agent,
                                         dec_reason = ''Performance improvement: '' @ format_pct2 improvement,
                                         dec_confidence = min 0.95 (improvement * 2),
                                         dec_expected_improvement = improvement,
                                         dec_regime = current_regime,
                                         dec_timestamp = now_ts \<rparr>)
                                   else Inr None))
                     else Inr None)))"

definition rotation_need ::
  "string list \<Rightarrow> ranking list \<Rightarrow> string \<Rightarrow> datetime \<Rightarrow> datetime \<Rightarrow> RotationDecision option" where
  \<comment> \<open>the body with the \<^verbatim>\<open>except Exception\<close> clause of lines 399-401\<close>
  "rotation_need active rankings current_regime now_id now_ts =
     (case rotation_body active rankings current_regime now_id now_ts of
        Inr decision \<Rightarrow> decision
      | Inl e \<Rightarrow> None)"

definition evaluate_rotation_need ::
  "exn + perf_row list \<Rightarrow> (nat \<Rightarrow> real) \<Rightarrow> string \<Rightarrow> datetime \<Rightarrow> datetime \<Rightarrow> RotationDecision option" where
  \<comment> \<open>\<^verbatim>\<open>_evaluate_rotation_need\<close>: the ranking is the one of \<^verbatim>\<open>_calculate_regime_rankings\<close>
      for the current regime, the active set is the fixed one\<close>
  "evaluate_rotation_need fetched rnd current_regime now_id now_ts =
     rotation_need current_agents (calculate_regime_rankings fetched rnd current_regime)
       current_regime now_id now_ts"

section \<open>Summary read\<close>

text \<open>
  The rows the four queries of \<^verbatim>\<open>get_meta_evaluation_summary\<close> return, with the columns
  the function reads. An average over no rows is NULL.
\<close>

record regime_row =
  rr_regime :: string
  rr_confidence :: real

record ranking_row =
  rkr_agent_name :: string
  rkr_rank :: nat
  rkr_composite_score :: real
  rkr_accuracy :: real

record rotation_row =
  rot_decision_id :: string
  rot_from_agent :: string
  rot_to_agent :: string
  rot_reason :: string
  rot_confidence :: real
  rot_created_at :: datetime

record aggregate_row =
  agg_total_agents :: nat
  agg_avg_accuracy :: "real option"
  agg_avg_sharpe_ratio :: "real option"
  agg_avg_total_return :: "real option"
  agg_avg_response_time :: "real option"

text \<open>
  What the store answers to the four queries, in the order the function issues them:
  the latest regime analysis (\<^verbatim>\<open>fetchrow\<close>, \<open>None\<close> without rows), the rankings of a
  regime, the recent rotation decisions and the aggregate over the last 24 hours. Each
  query may raise.
\<close>

record store =
  q_regime_analysis :: "exn + regime_row option"
  q_rankings :: "string \<Rightarrow> exn + ranking_row list"
  q_recent_rotations :: "exn + rotation_row list"
  q_performance_summary :: "exn + aggregate_row list"

record top_agent =
  ta_agent_name :: string
  ta_rank :: nat
  ta_composite_score :: real
  ta_accuracy :: real

record rotation_item =
  ri_decision_id :: string
  ri_from_agent :: string
  ri_to_agent :: string
  ri_reason :: string
  ri_confidence :: real
  ri_created_at :: string

record performance_summary =
  ps_total_agents :: nat
  ps_avg_accuracy :: real
  ps_avg_sharpe_ratio :: real
  ps_avg_total_return :: real
  ps_avg_response_time :: real

record summary =
  sum_current_regime :: string
  sum_regime_confidence :: real
  sum_top_agents :: "top_agent list"
  sum_recent_rotations :: "rotation_item list"
  sum_performance_summary :: performance_summary
  sum_last_updated :: string

definition avg_or_zero :: "aggregate_row list \<Rightarrow> (aggregate_row \<Rightarrow> real option) \<Rightarrow> real" where
  \<comment> \<open>\<^verbatim>\<open>float(rows[0][c]) if rows and rows[0][c] else 0.0\<close>: NULL and 0.0 are both falsy\<close>
  "avg_or_zero rows col =
     (case rows of
        [] \<Rightarrow> 0.0
      | row # _ \<Rightarrow> (case col row of None \<Rightarrow> 0.0 | Some v \<Rightarrow> if v \<noteq> 0 then v else 0.0))"

definition summary_body :: "store \<Rightarrow> datetime \<Rightarrow> exn + summary" where
  \<comment> \<open>the \<^verbatim>\<open>try\<close> body of \<^verbatim>\<open>get_meta_evaluation_summary\<close>, lines 563-628\<close>
  "summary_body db now =
     (case q_regime_analysis db of
        Inl e \<Rightarrow> Inl e
      | Inr regime_analysis \<Rightarrow>
          (let current_regime = (case regime_analysis of Some ra \<Rightarrow> rr_regime ra | None \<Rightarrow> ''neutral'')
           in case q_rankings db current_regime of
                Inl e \<Rightarrow> Inl e
              | Inr rankings \<Rightarrow>
                  (case q_recent_rotations db of
                     Inl e \<Rightarrow> Inl e
                   | Inr recent_rotations \<Rightarrow>
                       (case q_performance_summary db of
                          Inl e \<Rightarrow> Inl e
                        | Inr performance_summary \<Rightarrow>
                            Inr \<lparr> sum_current_regime = current_regime,
                                  sum_regime_confidence =
                                    (case regime_analysis of Some ra \<Rightarrow> rr_confidence ra | None \<Rightarrow> 0.0),
                                  sum_top_agents =
                                    map (\<lambda>r. \<lparr> ta_agent_name = rkr_agent_name r, ta_rank = rkr_rank r,
                                                ta_composite_score = rkr_composite_score r,
                                                ta_accuracy = rkr_accuracy r \<rparr>) rankings,
                                  sum_recent_rotations =
                                    map (\<lambda>r. \<lparr> ri_decision_id = rot_decision_id r,
                                                ri_from_agent = rot_from_agent r,
                                                ri_to_agent = rot_to_agent r,
                                                ri_reason = rot_reason r,
                                                ri_confidence = rot_confidence r,
                                                ri_created_at = isoformat (rot_created_at r) \<rparr>)
                                      recent_rotations,
                                  sum_performance_summary =
                                    \<lparr> ps_total_agents =
                                        (case performance_summary of [] \<Rightarrow> 0 | row # _ \<Rightarrow> agg_total_agents row),
                                      ps_avg_accuracy = avg_or_zero performance_summary agg_avg_accuracy,
                                      ps_avg_sharpe_ratio = avg_or_zero performance_summary agg_avg_sharpe_ratio,
                                      ps_avg_total_return = avg_or_zero performance_summary agg_avg_total_return,
                                      ps_avg_response_time = avg_or_zero performance_summary agg_avg_response_time \<rparr>,
                                  sum_last_updated = isoformat now \<rparr>))))"

definition get_meta_evaluation_summary :: "store \<Rightarrow> datetime \<Rightarrow> summary" where
  \<comment> \<open>the body with the \<^verbatim>\<open>except Exception\<close> clause of lines 630-645\<close>
  "get_meta_evaluation_summary db now =
     (case summary_body db now of
        Inr payload \<Rightarrow> payload
      | Inl e \<Rightarrow>
          \<lparr> sum_current_regime = ''neutral'', sum_regime_confidence = 0.6,
            sum_top_agents = [], sum_recent_rotations = [],
            sum_performance_summary =
              \<lparr> ps_total_agents = 0, ps_avg_accuracy = 0.0, ps_avg_sharpe_ratio = 0.0,
                ps_avg_total_return = 0.0, ps_avg_response_time = 0.0 \<rparr>,
            sum_last_updated = isoformat now \<rparr>)"

section \<open>Properties of rankings\<close>

definition unranked :: "ranking \<Rightarrow> ranking" where
  \<comment> \<open>an entry without its rank\<close>
  "unranked r = r\<lparr>rk_rank := None\<rparr>"

definition stable_descending :: "ranking list \<Rightarrow> ranking list \<Rightarrow> bool" where
  \<comment> \<open>\<open>out\<close> holds the entries of \<open>input\<close> in descending order of composite score, the
      entries of equal score in their order in \<open>input\<close>\<close>
  "stable_descending input out =
     (length out = length input \<and>
      sorted_wrt (\<lambda>a b. rk_composite_score a \<ge> rk_composite_score b) out \<and>
      (\<forall>c. filter (\<lambda>r. rk_composite_score r = c) (map unranked out) =
           filter (\<lambda>r. rk_composite_score r = c) (map unranked input)))"

section \<open>Sample inputs\<close>

definition zero_draws :: "nat \<Rightarrow> real" where
  "zero_draws n = 0"

definition sample_time :: datetime where
  "sample_time = \<lparr> year = 2026, month = 1, day = 2, hour = 3, minute = 4, second = 5, microsecond = 0 \<rparr>"

definition later_time :: datetime where
  "later_time = \<lparr> year = 2026, month = 1, day = 2, hour = 3, minute = 4, second = 6, microsecond = 0 \<rparr>"

definition null_confidence_signal :: signal_row where
  "null_confidence_signal =
     \<lparr> sig_confidence = None, sig_predicted_direction = Some ''up'',
       sig_actual_direction = Some ''up'', sig_timestamp = sample_time \<rparr>"

definition row_a1 :: perf_row where
  "row_a1 = \<lparr> row_agent_name = ''ForecastAgent'', row_accuracy = 0.6, row_sharpe_ratio = 0.4,
              row_total_return = 0.02, row_max_drawdown = 0, row_win_rate = 0.6,
              row_confidence = 0.5, row_response_time = 1 \<rparr>"

definition row_b :: perf_row where
  "row_b = row_a1\<lparr> row_agent_name := ''RiskAgent'' \<rparr>"

definition row_a2 :: perf_row where
  "row_a2 = \<lparr> row_agent_name = ''ForecastAgent'', row_accuracy = 0.8, row_sharpe_ratio = 1.2,
              row_total_return = 0.06, row_max_drawdown = 0, row_win_rate = 0.8,
              row_confidence = 0.5, row_response_time = 1 \<rparr>"

definition sample_rows :: "perf_row list" where
  "sample_rows = [row_a1, row_b, row_a2]"

definition entry :: "string \<Rightarrow> nat \<Rightarrow> real \<Rightarrow> ranking" where
  "entry name pos score =
     \<lparr> rk_agent_name = name, rk_rank = Some pos, rk_composite_score = score,
       rk_accuracy = score, rk_sharpe_ratio = (score - 0.5) * 2,
       rk_total_return = (score - 0.5) * 0.15, rk_max_drawdown = 0.1 - score * 0.15,
       rk_win_rate = score, rk_confidence = score, rk_response_time = 1 \<rparr>"

definition threshold_ranking :: "ranking list" where
  "threshold_ranking = [entry ''SentimentAgent'' 1 0.7, entry ''ForecastAgent'' 2 0.6]"

definition rotating_ranking :: "ranking list" where
  "rotating_ranking =
     [entry ''SentimentAgent'' 1 0.7, entry ''RiskAgent'' 2 0.65, entry ''ForecastAgent'' 3 0.5]"

definition best_active_ranking :: "ranking list" where
  "best_active_ranking = [entry ''ForecastAgent'' 1 0.9, entry ''SentimentAgent'' 2 0.5]"

definition sample_decision :: "datetime \<Rightarrow> datetime \<Rightarrow> RotationDecision" where
  "sample_decision now_id now_ts =
     \<lparr> dec_decision_id = ''rotation_'' @ strftime_Ymd_HMS now_id,
       dec_from_agent = ''ForecastAgent'', dec_to_agent = ''SentimentAgent'',
       dec_reason = ''Performance improvement: 20.00%'',
       dec_confidence = 0.4, dec_expected_improvement = 0.2,
       dec_regime = ''bull'', dec_timestamp = now_ts \<rparr>"

definition repeated_ranking :: "ranking list" where
  "repeated_ranking =
     [entry ''SentimentAgent'' 1 0.9, entry ''ForecastAgent'' 2 0.7, entry ''ForecastAgent'' 3 0.3]"

text \<open>
  A record as the performance scorer writes it for an accuracy (lines 225-228), with
  confidence 0.8 and latency 1; an agent scored in three cycles of one regime.
\<close>

definition scored_row :: "string \<Rightarrow> real \<Rightarrow> perf_row" where
  "scored_row name accuracy =
     \<lparr> row_agent_name = name, row_accuracy = accuracy,
       row_sharpe_ratio = max 0 ((accuracy - 0.5) * 4),
       row_total_return = (accuracy - 0.5) * 0.2,
       row_max_drawdown = max 0 (0.1 - accuracy * 0.2),
       row_win_rate = accuracy, row_confidence = 0.8, row_response_time = 1 \<rparr>"

definition repeated_rows :: "perf_row list" where
  "repeated_rows =
     [scored_row ''ForecastAgent'' 0.5, scored_row ''SentimentAgent'' 0.9, scored_row ''ForecastAgent'' 0.7]"

definition repeated_decision :: RotationDecision where
  "repeated_decision =
     \<lparr> dec_decision_id = ''rotation_20260102_030405'',
       dec_from_agent = ''ForecastAgent'', dec_to_agent = ''SentimentAgent'',
       dec_reason = ''Performance improvement: 24.80%'',
       dec_confidence = 0.496, dec_expected_improvement = 0.248,
       dec_regime = ''bull'', dec_timestamp = later_time \<rparr>"

definition half_second_later :: datetime where
  "half_second_later = sample_time\<lparr> microsecond := 500000 \<rparr>"

definition empty_store :: store where
  "empty_store =
     \<lparr> q_regime_analysis = Inr None, q_rankings = (\<lambda>regime. Inr []),
       q_recent_rotations = Inr [], q_performance_summary = Inr [] \<rparr>"

subsection \<open>Scores of the fallback ranking\<close>

text \<open>
  The score the fallback ranking draws for the \<open>i\<close>-th agent of the roster, and the scores of
  the three active agents (the first three of the roster) and of the seven others.
\<close>

definition fallback_score :: "(nat \<Rightarrow> real) \<Rightarrow> nat \<Rightarrow> real" where
  "fallback_score rnd i = uniform 0.4 0.8 (rnd (2 * i))"

definition active_scores :: "(nat \<Rightarrow> real) \<Rightarrow> real set" where
  "active_scores rnd = fallback_score rnd ` {0..<3}"

definition other_scores :: "(nat \<Rightarrow> real) \<Rightarrow> real set" where
  "other_scores rnd = fallback_score rnd ` {3..<10}"

definition outage_draws :: "nat \<Rightarrow> real" where
  "outage_draws n = (if n = 6 then 3 / 4 else if n < 6 then 0 else 1 / 4)"

definition outage_decision :: RotationDecision where
  "outage_decision =
     \<lparr> dec_decision_id = ''rotation_20260102_030405'',
       dec_from_agent = ''VolatilityAgent'', dec_to_agent = ''SentimentAgent'',
       dec_reason = ''Performance improvement: 30.00%'',
       dec_confidence = 0.6, dec_expected_improvement = 0.3,
       dec_regime = ''neutral'', dec_timestamp = later_time \<rparr>"

section \<open>Regime classifier: verified properties\<close>

text \<open>
  C1. Regime classification follows the fixed precedence, first match winning: with
  volatility \<open>v\<close> and trend \<open>t\<close> computed from a non-empty history, the regime is
  \<open>volatile\<close> if \<open>v > 0.25\<close>, whatever \<open>t\<close> is; otherwise \<open>bull\<close> if \<open>t > 0.05\<close>; otherwise
  \<open>bear\<close> if \<open>t < -0.05\<close>; otherwise \<open>neutral\<close> if \<open>|t| < 0.02\<close>; otherwise \<open>trending\<close>.
  The regime detection and the regime analysis follow the same chain.
\<close>

theorem regime_precedence:
  fixes ind :: indicators and v t :: real
  assumes "ind_volatility ind = v" and "ind_trend ind = t"
  shows "(let r = detect_market_regime (Inr (Frame ind))
          in ra_regime (analyze_market_regime (Inr (Frame ind)) rnd now) = r \<and>
             (v > 0.25 \<longrightarrow> r = ''volatile'') \<and>
             (\<not> v > 0.25 \<and> t > 0.05 \<longrightarrow> r = ''bull'') \<and>
             (\<not> v > 0.25 \<and> \<not> t > 0.05 \<and> t < - 0.05 \<longrightarrow> r = ''bear'') \<and>
             (\<not> v > 0.25 \<and> \<not> t > 0.05 \<and> \<not> t < - 0.05 \<and> \<bar>t\<bar> < 0.02 \<longrightarrow> r = ''neutral'') \<and>
             (\<not> v > 0.25 \<and> \<not> t > 0.05 \<and> \<not> t < - 0.05 \<and> \<not> \<bar>t\<bar> < 0.02 \<longrightarrow> r = ''trending''))"
  using assms by (simp add: detect_market_regime_def analyze_market_regime_def Let_def)

text \<open>Volatility 0.30 with trend 0.01 classifies as \<open>volatile\<close>.\<close>

theorem regime_precedence_witness:
  "detect_market_regime
     (Inr (Frame \<lparr> ind_volatility = 0.30, ind_trend = 0.01, ind_volume_ratio = 1 \<rparr>)) = ''volatile'' \<and>
   ra_regime (analyze_market_regime
     (Inr (Frame \<lparr> ind_volatility = 0.30, ind_trend = 0.01, ind_volume_ratio = 1 \<rparr>))
     zero_draws sample_time) = ''volatile''"
  using regime_precedence [of "\<lparr> ind_volatility = 0.30, ind_trend = 0.01, ind_volume_ratio = 1 \<rparr>"
      "0.30" "0.01" zero_draws sample_time]
  by (simp add: Let_def)

section \<open>Performance scorer: verified properties\<close>

text \<open>
  The fallback path does not use the formulas of the primary path: for the base value
  0.4 the risk-adjusted-return score is \<open>-0.2\<close>, not \<open>max 0 ((0.4 - 0.5) * 4) = 0\<close>, the
  cumulative return is \<open>-0.015\<close>, not \<open>-0.02\<close>, and the maximum drawdown is \<open>0.04\<close>,
  not \<open>0.02\<close>.
\<close>

theorem fallback_metrics_counterexample:
  "perf_accuracy (calculate_agent_performance ''RiskAgent'' ''neutral'' (Inr []) zero_draws sample_time) = 0.4 \<and>
   perf_sharpe_ratio (calculate_agent_performance ''RiskAgent'' ''neutral'' (Inr []) zero_draws sample_time)
     \<noteq> max 0 ((0.4 - 0.5) * 4) \<and>
   perf_total_return (calculate_agent_performance ''RiskAgent'' ''neutral'' (Inr []) zero_draws sample_time)
     \<noteq> (0.4 - 0.5) * 0.2 \<and>
   perf_max_drawdown (calculate_agent_performance ''RiskAgent'' ''neutral'' (Inr []) zero_draws sample_time)
     \<noteq> max 0 (0.1 - 0.4 * 0.2)"
  by (simp add: calculate_agent_performance_def performance_body_def uniform_def zero_draws_def Let_def)

text \<open>
  C2 (amended). In the fallback path (the agent has no prediction history) all metrics
  derive from one synthetic base value drawn in \<open>[0.4, 0.7]\<close>, by formulas of the
  fallback path's own: accuracy, win rate and confidence are the base value, the
  risk-adjusted-return score is \<open>(base - 0.5) * 2\<close> (not clamped at 0), the cumulative
  return is \<open>(base - 0.5) * 0.15\<close> and the maximum drawdown is \<open>0.1 - base * 0.15\<close>.
\<close>

theorem fallback_metrics:
  assumes "0 \<le> rnd 0" and "rnd 0 < 1"
  shows "(let p = calculate_agent_performance agent_name regime (Inr []) rnd now;
              base = uniform 0.4 0.7 (rnd 0)
          in 0.4 \<le> base \<and> base \<le> 0.7 \<and>
             perf_accuracy p = base \<and>
             perf_sharpe_ratio p = (base - 0.5) * 2 \<and>
             perf_total_return p = (base - 0.5) * 0.15 \<and>
             perf_max_drawdown p = 0.1 - base * 0.15 \<and>
             perf_win_rate p = base \<and>
             perf_confidence p = base)"
  using assms
  by (simp add: calculate_agent_performance_def performance_body_def uniform_def Let_def)

theorem fallback_metrics_witness:
  "perf_sharpe_ratio (calculate_agent_performance ''RiskAgent'' ''neutral'' (Inr []) zero_draws sample_time) = - 0.2 \<and>
   perf_total_return (calculate_agent_performance ''RiskAgent'' ''neutral'' (Inr []) zero_draws sample_time) = - 0.015 \<and>
   perf_max_drawdown (calculate_agent_performance ''RiskAgent'' ''neutral'' (Inr []) zero_draws sample_time) = 0.04 \<and>
   perf_win_rate (calculate_agent_performance ''RiskAgent'' ''neutral'' (Inr []) zero_draws sample_time) = 0.4"
  using fallback_metrics [of zero_draws "''RiskAgent''" "''neutral''" sample_time]
  by (simp add: zero_draws_def uniform_def Let_def)

text \<open>
  C9. On any failure while computing an agent's performance, in particular when the
  fetch of the prediction history raises, the scorer returns the neutral default record
  (accuracy 0.5, risk-adjusted-return score 0, cumulative return 0, win rate 0.5, the
  given agent and regime) and the error does not reach the caller.
\<close>

theorem failure_gives_neutral_default:
  "(performance_body agent_name regime fetched rnd now = Inl e \<longrightarrow>
      calculate_agent_performance agent_name regime fetched rnd now =
        \<lparr> perf_agent_name = agent_name, perf_accuracy = 0.5, perf_sharpe_ratio = 0,
          perf_total_return = 0, perf_max_drawdown = 0.1, perf_win_rate = 0.5,
          perf_confidence = 0.5, perf_response_time = 1, perf_regime = regime,
          perf_timestamp = now \<rparr>) \<and>
   performance_body agent_name regime (Inl e) rnd now = Inl e \<and>
   calculate_agent_performance agent_name regime (Inl e) rnd now =
     \<lparr> perf_agent_name = agent_name, perf_accuracy = 0.5, perf_sharpe_ratio = 0,
       perf_total_return = 0, perf_max_drawdown = 0.1, perf_win_rate = 0.5,
       perf_confidence = 0.5, perf_response_time = 1, perf_regime = regime,
       perf_timestamp = now \<rparr>"
  by (simp add: calculate_agent_performance_def performance_body_def)

text \<open>A history with a NULL confidence makes \<^verbatim>\<open>float\<close> raise; the record is the default.\<close>

theorem failure_gives_neutral_default_witness:
  "performance_body ''RiskAgent'' ''bull'' (Inr [null_confidence_signal]) zero_draws sample_time = Inl TypeError \<and>
   calculate_agent_performance ''RiskAgent'' ''bull'' (Inr [null_confidence_signal]) zero_draws sample_time =
     \<lparr> perf_agent_name = ''RiskAgent'', perf_accuracy = 0.5, perf_sharpe_ratio = 0,
       perf_total_return = 0, perf_max_drawdown = 0.1, perf_win_rate = 0.5,
       perf_confidence = 0.5, perf_response_time = 1, perf_regime = ''bull'',
       perf_timestamp = sample_time \<rparr>"
proof -
  have b: "performance_body ''RiskAgent'' ''bull'' (Inr [null_confidence_signal]) zero_draws sample_time = Inl TypeError"
    by (simp add: performance_body_def null_confidence_signal_def py_float_def)
  from failure_gives_neutral_default [of "''RiskAgent''" "''bull''" "Inr [null_confidence_signal]"
      zero_draws sample_time TypeError] b
  show ?thesis by simp
qed

section \<open>Ranking engine: verified properties\<close>

lemma length_sort_reverse: "length (sort_reverse k xs) = length xs"
  by (simp add: sort_reverse_def)

lemma set_sort_reverse: "set (sort_reverse k xs) = set xs"
  by (simp add: sort_reverse_def)

lemma sorted_sort_reverse: "sorted_wrt (\<lambda>a b. k a \<ge> k b) (sort_reverse k xs)"
proof -
  have "sorted (map k (sort_key k (rev xs)))"
    by (rule sorted_sort_key)
  then have "sorted_wrt (\<lambda>a b. k a \<le> k b) (sort_key k (rev xs))"
    by (simp add: sorted_wrt_map)
  then show ?thesis
    by (simp add: sort_reverse_def sorted_wrt_rev)
qed

lemma stable_sort_reverse:
  "filter (\<lambda>y. k y = c) (sort_reverse k xs) = filter (\<lambda>y. k y = c) xs"
proof -
  have "filter (\<lambda>y. k y = c) (sort_reverse k xs) = rev (filter (\<lambda>y. k y = c) (sort_key k (rev xs)))"
    by (simp add: sort_reverse_def rev_filter)
  also have "\<dots> = rev (filter (\<lambda>y. k y = c) (rev xs))"
    by (simp only: sort_key_stable)
  also have "\<dots> = filter (\<lambda>y. k y = c) xs"
    by (simp add: rev_filter)
  finally show ?thesis .
qed

lemma length_assign_ranks: "length (assign_ranks rs) = length rs"
  by (simp add: assign_ranks_def)

lemma assign_ranks_nth:
  "i < length rs \<Longrightarrow> assign_ranks rs ! i = (rs ! i)\<lparr>rk_rank := Some (i + 1)\<rparr>"
  by (simp add: assign_ranks_def nth_enumerate_eq)

lemma map_unranked_assign_ranks: "map unranked (assign_ranks rs) = map unranked rs"
  by (rule nth_equalityI) (simp_all add: length_assign_ranks assign_ranks_nth unranked_def)

lemma map_score_assign_ranks: "map rk_composite_score (assign_ranks rs) = map rk_composite_score rs"
  by (rule nth_equalityI) (simp_all add: length_assign_ranks assign_ranks_nth)

lemma map_name_assign_ranks: "map rk_agent_name (assign_ranks rs) = map rk_agent_name rs"
  by (rule nth_equalityI) (simp_all add: length_assign_ranks assign_ranks_nth)

lemma map_rank_assign_ranks: "map rk_rank (assign_ranks rs) = map Some [1..<Suc (length rs)]"
  by (rule nth_equalityI) (simp_all add: length_assign_ranks assign_ranks_nth del: upt_Suc)

lemma sorted_assign_ranks:
  "sorted_wrt (\<lambda>a b. rk_composite_score a \<ge> rk_composite_score b) (assign_ranks rs) =
   sorted_wrt (\<lambda>a b. rk_composite_score a \<ge> rk_composite_score b) rs"
proof -
  have "sorted_wrt (\<lambda>a b. rk_composite_score a \<ge> rk_composite_score b) xs =
        sorted_wrt (\<lambda>a b. a \<ge> b) (map rk_composite_score xs)" for xs :: "ranking list"
    by (simp add: sorted_wrt_map)
  then show ?thesis
    by (simp add: map_score_assign_ranks)
qed

lemma unranked_score: "rk_composite_score (unranked r) = rk_composite_score r"
  by (simp add: unranked_def)

lemma filter_map_unranked:
  "filter (\<lambda>r. rk_composite_score r = c) (map unranked xs) =
   map unranked (filter (\<lambda>r. rk_composite_score r = c) xs)"
  by (simp add: filter_map comp_def unranked_score)

lemma ranked_stable_descending:
  "stable_descending rs (assign_ranks (sort_reverse rk_composite_score rs))"
  unfolding stable_descending_def
  by (simp add: length_assign_ranks length_sort_reverse sorted_assign_ranks sorted_sort_reverse
      map_unranked_assign_ranks filter_map_unranked stable_sort_reverse)

lemma ranked_ranks:
  "map rk_rank (assign_ranks (sort_reverse rk_composite_score rs)) = map Some [1..<Suc (length rs)]"
  by (simp add: map_rank_assign_ranks length_sort_reverse)


lemma mset_sort_reverse: "mset (sort_reverse k xs) = mset xs"
  by (simp add: sort_reverse_def)

lemma score_row_name: "score_row p = Inr r \<Longrightarrow> rk_agent_name r = row_agent_name p"
  by (auto simp: score_row_def py_div_def Let_def split: if_splits)

lemma score_rows_Inr:
  "score_rows ps = Inr rs \<Longrightarrow> length rs = length ps \<and> map rk_agent_name rs = map row_agent_name ps"
proof (induction ps arbitrary: rs)
  case Nil
  then show ?case by simp
next
  case (Cons p ps)
  then show ?case
    by (auto split: sum.splits dest: score_row_name)
qed

lemma score_row_total: "row_response_time p \<noteq> - 1 \<Longrightarrow> \<exists>r. score_row p = Inr r"
  by (simp add: score_row_def py_div_def Let_def)

lemma score_rows_total:
  "\<forall>p \<in> set ps. row_response_time p \<noteq> - 1 \<Longrightarrow> \<exists>rs. score_rows ps = Inr rs"
proof (induction ps)
  case Nil
  then show ?case by simp
next
  case (Cons p ps)
  then obtain r rs where "score_row p = Inr r" and "score_rows ps = Inr rs"
    using score_row_total [of p] by auto
  then show ?case by simp
qed

lemma rankings_primary:
  "ps \<noteq> [] \<Longrightarrow> score_rows ps = Inr rs \<Longrightarrow>
   calculate_regime_rankings (Inr ps) rnd regime = assign_ranks (sort_reverse rk_composite_score rs)"
  by (simp add: calculate_regime_rankings_def rankings_body_def)

lemma rankings_shape:
  "\<exists>base. base \<noteq> [] \<and>
     calculate_regime_rankings fetched rnd regime = assign_ranks (sort_reverse rk_composite_score base)"
proof -
  let ?fb = "map (fallback_entry rnd) (enumerate 0 agents)"
  have fb: "?fb \<noteq> []"
    by (simp add: agents_def)
  show ?thesis
  proof (cases "\<exists>ps rs. fetched = Inr ps \<and> ps \<noteq> [] \<and> score_rows ps = Inr rs")
    case True
    then obtain ps rs where *: "fetched = Inr ps" "ps \<noteq> []" "score_rows ps = Inr rs"
      by blast
    then have "rs \<noteq> []"
      using score_rows_Inr [of ps rs] by auto
    with * show ?thesis
      using rankings_primary [of ps rs rnd regime] by blast
  next
    case False
    then have "calculate_regime_rankings fetched rnd regime = get_fallback_rankings rnd regime"
      by (auto simp: calculate_regime_rankings_def rankings_body_def split: sum.splits)
    with fb show ?thesis
      unfolding get_fallback_rankings_def by blast
  qed
qed

text \<open>
  C3. The ranking the engine produces is never empty, is sorted by composite score in
  descending order, and its ranks are 1, 2, ..., N without gaps. For a non-empty set of
  performance records whose scoring completes, it has one entry per record and the sort
  is stable: entries of equal score keep the order of the records. The same holds for
  the synthesized fallback ranking over the roster when there are no records.
\<close>

theorem ranking_sorted_contiguous:
  "(let out = calculate_regime_rankings fetched rnd regime
    in 1 \<le> length out \<and>
       sorted_wrt (\<lambda>a b. rk_composite_score a \<ge> rk_composite_score b) out \<and>
       map rk_rank out = map Some [1..<Suc (length out)] \<and>
       (\<forall>performances rankings.
          fetched = Inr performances \<and> performances \<noteq> [] \<and> score_rows performances = Inr rankings \<longrightarrow>
          length out = length performances \<and> stable_descending rankings out) \<and>
       (fetched = Inr [] \<longrightarrow>
          out = get_fallback_rankings rnd regime \<and> length out = length agents \<and>
          stable_descending (map (fallback_entry rnd) (enumerate 0 agents)) out))"
proof -
  obtain base where base: "base \<noteq> []"
      "calculate_regime_rankings fetched rnd regime = assign_ranks (sort_reverse rk_composite_score base)"
    using rankings_shape by blast
  have len: "1 \<le> length (calculate_regime_rankings fetched rnd regime)"
    using base by (cases base) (simp_all add: length_assign_ranks length_sort_reverse)
  have srt: "sorted_wrt (\<lambda>a b. rk_composite_score a \<ge> rk_composite_score b)
               (calculate_regime_rankings fetched rnd regime)"
    using ranked_stable_descending [of base] base(2) by (simp add: stable_descending_def)
  have rks: "map rk_rank (calculate_regime_rankings fetched rnd regime) =
             map Some [1..<Suc (length (calculate_regime_rankings fetched rnd regime))]"
    by (simp only: base(2) ranked_ranks length_assign_ranks length_sort_reverse)
  have prim: "length (calculate_regime_rankings fetched rnd regime) = length ps \<and>
              stable_descending rs (calculate_regime_rankings fetched rnd regime)"
    if "fetched = Inr ps" "ps \<noteq> []" "score_rows ps = Inr rs" for ps rs
    using that score_rows_Inr [of ps rs] ranked_stable_descending [of rs]
    by (simp add: rankings_primary stable_descending_def)
  have fb: "calculate_regime_rankings fetched rnd regime = get_fallback_rankings rnd regime \<and>
            length (calculate_regime_rankings fetched rnd regime) = length agents \<and>
            stable_descending (map (fallback_entry rnd) (enumerate 0 agents))
              (calculate_regime_rankings fetched rnd regime)"
    if "fetched = Inr []"
    using that ranked_stable_descending [of "map (fallback_entry rnd) (enumerate 0 agents)"]
    by (simp add: calculate_regime_rankings_def rankings_body_def get_fallback_rankings_def
        stable_descending_def)
  show ?thesis
    unfolding Let_def using len srt rks prim fb by blast
qed

text \<open>
  C10. The engine produces one ranking entry per performance record, not one per agent:
  for records with a positive latency (any latency other than \<open>-1\<close>, where the score's
  division raises), an agent that occurs in \<open>k\<close> records occurs \<open>k\<close> times in the
  ranking, and all rank positions are distinct.
\<close>

theorem one_entry_per_record:
  assumes "performances \<noteq> []" and "\<forall>p \<in> set performances. row_response_time p \<noteq> - 1"
  shows "(let out = calculate_regime_rankings (Inr performances) rnd regime
          in length out = length performances \<and>
             (\<forall>a. count_list (map rk_agent_name out) a = count_list (map row_agent_name performances) a) \<and>
             distinct (map rk_rank out) \<and>
             (\<forall>a. distinct (map rk_rank (filter (\<lambda>r. rk_agent_name r = a) out))))"
proof -
  obtain rs where rs: "score_rows performances = Inr rs"
    using score_rows_total [OF assms(2)] by blast
  let ?out = "calculate_regime_rankings (Inr performances) rnd regime"
  have out: "?out = assign_ranks (sort_reverse rk_composite_score rs)"
    using assms(1) rs by (rule rankings_primary)
  have len: "length ?out = length performances"
    using score_rows_Inr [OF rs] by (simp add: out length_assign_ranks length_sort_reverse)
  have "mset (map rk_agent_name ?out) = mset (map rk_agent_name rs)"
    by (simp add: out map_name_assign_ranks mset_sort_reverse)
  then have ms: "mset (map rk_agent_name ?out) = mset (map row_agent_name performances)"
    using score_rows_Inr [OF rs] by simp
  have cnt: "count_list (map rk_agent_name ?out) a = count_list (map row_agent_name performances) a" for a
    using ms by (metis count_mset)
  have "map rk_rank ?out = map Some [1..<Suc (length rs)]"
    by (simp only: out ranked_ranks)
  then have dist: "distinct (map rk_rank ?out)"
    by (simp add: distinct_map del: upt_Suc)
  have "distinct (map rk_rank (filter (\<lambda>r. rk_agent_name r = a) ?out))" for a
    using dist by (rule distinct_map_filter)
  with len cnt dist show ?thesis
    unfolding Let_def by blast
qed


theorem ranking_sorted_contiguous_witness:
  "map rk_rank (calculate_regime_rankings (Inr sample_rows) zero_draws ''bull'') = [Some 1, Some 2, Some 3] \<and>
   map rk_agent_name (calculate_regime_rankings (Inr sample_rows) zero_draws ''bull'') =
     [''ForecastAgent'', ''ForecastAgent'', ''RiskAgent''] \<and>
   map rk_composite_score (calculate_regime_rankings (Inr sample_rows) zero_draws ''bull'') =
     [0.672, 0.424, 0.424] \<and>
   length (calculate_regime_rankings (Inr []) zero_draws ''bull'') = 10"
proof -
  let ?out = "calculate_regime_rankings (Inr sample_rows) zero_draws ''bull''"
  have ne: "sample_rows \<noteq> []"
    by (simp add: sample_rows_def)
  obtain rs where rs: "score_rows sample_rows = Inr rs"
    using score_rows_total [of sample_rows]
    by (auto simp: sample_rows_def row_a1_def row_b_def row_a2_def)
  from ranking_sorted_contiguous [of "Inr sample_rows" zero_draws "''bull''"] ne rs
  have "length ?out = length sample_rows" and "map rk_rank ?out = map Some [1..<Suc (length ?out)]"
    unfolding Let_def by blast+
  then have ranks: "map rk_rank ?out = [Some 1, Some 2, Some 3]"
    by (simp add: sample_rows_def upt_rec)
  have names: "map rk_agent_name ?out = [''ForecastAgent'', ''ForecastAgent'', ''RiskAgent'']"
    by code_simp
  have scores: "map rk_composite_score ?out = [0.672, 0.424, 0.424]"
    by code_simp
  from ranking_sorted_contiguous [of "Inr []" zero_draws "''bull''"]
  have "length (calculate_regime_rankings (Inr []) zero_draws ''bull'') = length agents"
    unfolding Let_def by blast
  then have fb: "length (calculate_regime_rankings (Inr []) zero_draws ''bull'') = 10"
    by (simp add: agents_def)
  from ranks names scores fb show ?thesis by blast
qed

theorem one_entry_per_record_witness:
  "count_list (map row_agent_name sample_rows) ''ForecastAgent'' = 2 \<and>
   count_list (map rk_agent_name (calculate_regime_rankings (Inr sample_rows) zero_draws ''bull''))
     ''ForecastAgent'' = 2 \<and>
   length (calculate_regime_rankings (Inr sample_rows) zero_draws ''bull'') = 3 \<and>
   distinct (map rk_rank (calculate_regime_rankings (Inr sample_rows) zero_draws ''bull''))"
proof -
  have ne: "sample_rows \<noteq> []"
    by (simp add: sample_rows_def)
  have rt: "\<forall>p \<in> set sample_rows. row_response_time p \<noteq> - 1"
    by (simp add: sample_rows_def row_a1_def row_b_def row_a2_def)
  have c: "count_list (map row_agent_name sample_rows) ''ForecastAgent'' = 2"
    by (simp add: sample_rows_def row_a1_def row_b_def row_a2_def)
  have l: "length sample_rows = 3"
    by (simp add: sample_rows_def)
  from one_entry_per_record [OF ne rt, of zero_draws "''bull''"] c l show ?thesis
    unfolding Let_def by simp
qed

section \<open>Rotation decision engine: verified properties\<close>

lemma find_Some_mem: "find P xs = Some x \<Longrightarrow> P x \<and> x \<in> set xs"
  by (induction xs) (auto split: if_splits)

lemma worst_active_Some:
  "worst_active active rankings = Some w \<Longrightarrow>
   w \<in> set active \<and> (\<exists>r \<in> set rankings. rk_agent_name r = w)"
  using find_Some_mem [of "\<lambda>r. rk_agent_name r \<in> set active" "rev rankings"]
  by (auto simp: worst_active_def)

lemma worst_active_None:
  "worst_active active rankings = None \<longleftrightarrow> (\<forall>r \<in> set rankings. rk_agent_name r \<notin> set active)"
  by (auto simp: worst_active_def find_None_iff)

lemma score_of_found:
  "\<exists>r \<in> set rankings. rk_agent_name r = w \<Longrightarrow> \<exists>s. score_of w rankings = Inr s"
  by (auto simp: score_of_def find_None_iff split: option.splits)

lemma rotation_need_Some:
  assumes "rotation_need active rankings regime now_id now_ts = Some d"
  shows "\<exists>r0 rest w worst_score.
           rankings = r0 # rest \<and> rest \<noteq> [] \<and>
           worst_active active rankings = Some w \<and> w \<noteq> [] \<and>
           rk_agent_name r0 \<notin> set active \<and>
           score_of w rankings = Inr worst_score \<and>
           rk_composite_score r0 - worst_score > 0.1 \<and>
           d = \<lparr> dec_decision_id = ''rotation_'' @ strftime_Ymd_HMS now_id,
                 dec_from_agent = w,
                 dec_to_agent = rk_agent_name r0,
                 dec_reason = ''Performance improvement: '' @ format_pct2 (rk_composite_score r0 - worst_score),
                 dec_confidence = min 0.95 ((rk_composite_score r0 - worst_score) * 2),
                 dec_expected_improvement = rk_composite_score r0 - worst_score,
                 dec_regime = regime,
                 dec_timestamp = now_ts \<rparr>"
proof (cases rankings)
  case Nil
  with assms show ?thesis
    by (simp add: rotation_need_def rotation_body_def)
next
  case (Cons r0 rest)
  with assms show ?thesis
    by (auto simp: rotation_need_def rotation_body_def Let_def
        split: if_splits option.splits sum.splits)
qed

lemma rotation_need_emits:
  assumes "rankings = r0 # rest" and "rest \<noteq> []"
    and "worst_active active rankings = Some w" and "w \<noteq> []"
    and "rk_agent_name r0 \<notin> set active"
    and "score_of w rankings = Inr worst_score"
    and "rk_composite_score r0 - worst_score > 0.1"
  shows "rotation_need active rankings regime now_id now_ts =
         Some \<lparr> dec_decision_id = ''rotation_'' @ strftime_Ymd_HMS now_id,
                 dec_from_agent = w,
                 dec_to_agent = rk_agent_name r0,
                 dec_reason = ''Performance improvement: '' @ format_pct2 (rk_composite_score r0 - worst_score),
                 dec_confidence = min 0.95 ((rk_composite_score r0 - worst_score) * 2),
                 dec_expected_improvement = rk_composite_score r0 - worst_score,
                 dec_regime = regime,
                 dec_timestamp = now_ts \<rparr>"
proof -
  from assms(1,2) have "\<not> length rankings < 2"
    by (cases rest) simp_all
  with assms show ?thesis
    by (simp add: rotation_need_def rotation_body_def Let_def)
qed


lemma find_rev_last:
  "filter P xs \<noteq> [] \<Longrightarrow> find P (rev xs) = Some (last (filter P xs))"
proof (induction xs rule: rev_induct)
  case Nil
  then show ?case by simp
next
  case (snoc x xs)
  then show ?case by (cases "P x") simp_all
qed

lemma find_distinct_key:
  "distinct (map f xs) \<Longrightarrow> e \<in> set xs \<Longrightarrow> find (\<lambda>r. f r = f e) xs = Some e"
  by (induction xs) (auto simp: image_iff)

lemma score_of_worst_active_distinct:
  assumes "distinct (map rk_agent_name rankings)" and "worst_active active rankings = Some w"
  shows "score_of w rankings =
         Inr (rk_composite_score (last (filter (\<lambda>r. rk_agent_name r \<in> set active) rankings)))"
proof -
  let ?P = "\<lambda>r. rk_agent_name r \<in> set active"
  let ?e = "last (filter ?P rankings)"
  from assms(2) have "\<exists>r \<in> set rankings. ?P r"
    using worst_active_Some [of active rankings w] by auto
  then have ne: "filter ?P rankings \<noteq> []"
    by (simp add: filter_empty_conv)
  then have f: "find ?P (rev rankings) = Some ?e"
    by (rule find_rev_last)
  with assms(2) have w: "w = rk_agent_name ?e"
    by (simp add: worst_active_def)
  from ne have "?e \<in> set (filter ?P rankings)"
    by (rule last_in_set)
  then have "?e \<in> set rankings"
    by simp
  with assms(1) have "find (\<lambda>r. rk_agent_name r = rk_agent_name ?e) rankings = Some ?e"
    by (rule find_distinct_key)
  with w show ?thesis
    by (simp add: score_of_def)
qed

text \<open>
  The threshold on the score the engine looks up. A decision is emitted only when the
  best composite score exceeds by more than 0.10 the score looked up for the candidate's
  agent name (the first entry of that name, lines 379-380); it carries confidence
  \<open>min 0.95 (improvement * 2)\<close> and that difference as expected improvement. Where the
  agent names of the ranking are distinct, the looked-up score is the score of the
  candidate's entry, the last active entry of the ranking.
\<close>

theorem rotation_threshold:
  "(rotation_need active rankings regime now_id now_ts = Some d \<longrightarrow>
      (\<exists>r0 rest worst_score.
         rankings = r0 # rest \<and>
         worst_active active rankings = Some (dec_from_agent d) \<and>
         score_of (dec_from_agent d) rankings = Inr worst_score \<and>
         rk_composite_score r0 - worst_score > 0.1 \<and>
         dec_confidence d = min 0.95 ((rk_composite_score r0 - worst_score) * 2) \<and>
         dec_expected_improvement d = rk_composite_score r0 - worst_score)) \<and>
   (rankings = r0' # rest' \<and> worst_active active rankings = Some w \<and>
      score_of w rankings = Inr worst_score' \<and> rk_composite_score r0' - worst_score' \<le> 0.1 \<longrightarrow>
      rotation_need active rankings regime now_id now_ts = None) \<and>
   (distinct (map rk_agent_name rankings) \<and> worst_active active rankings = Some w \<longrightarrow>
      score_of w rankings =
        Inr (rk_composite_score (last (filter (\<lambda>r. rk_agent_name r \<in> set active) rankings))))"
proof (intro conjI impI)
  assume "rotation_need active rankings regime now_id now_ts = Some d"
  from rotation_need_Some [OF this]
  show "\<exists>r0 rest worst_score.
         rankings = r0 # rest \<and>
         worst_active active rankings = Some (dec_from_agent d) \<and>
         score_of (dec_from_agent d) rankings = Inr worst_score \<and>
         rk_composite_score r0 - worst_score > 0.1 \<and>
         dec_confidence d = min 0.95 ((rk_composite_score r0 - worst_score) * 2) \<and>
         dec_expected_improvement d = rk_composite_score r0 - worst_score"
    by auto
next
  assume a: "rankings = r0' # rest' \<and> worst_active active rankings = Some w \<and>
      score_of w rankings = Inr worst_score' \<and> rk_composite_score r0' - worst_score' \<le> 0.1"
  show "rotation_need active rankings regime now_id now_ts = None"
  proof (cases "rotation_need active rankings regime now_id now_ts")
    case None
    then show ?thesis .
  next
    case (Some d')
    from rotation_need_Some [OF this] a show ?thesis
      by auto
  qed
next
  assume "distinct (map rk_agent_name rankings) \<and> worst_active active rankings = Some w"
  then show "score_of w rankings =
        Inr (rk_composite_score (last (filter (\<lambda>r. rk_agent_name r \<in> set active) rankings)))"
    using score_of_worst_active_distinct by blast
qed

lemma rotation_need_members:
  assumes "rotation_need active rankings regime now_id now_ts = Some d"
  shows "dec_from_agent d \<in> set active \<and> dec_to_agent d \<notin> set active \<and>
         dec_from_agent d \<in> rk_agent_name ` set rankings \<and>
         dec_to_agent d = rk_agent_name (hd rankings)"
proof -
  from rotation_need_Some [OF assms] obtain r0 rest w where
    *: "rankings = r0 # rest" "worst_active active rankings = Some w"
       "rk_agent_name r0 \<notin> set active" "dec_from_agent d = w" "dec_to_agent d = rk_agent_name r0"
    by auto
  from worst_active_Some [OF *(2)] have w: "w \<in> set active" "w \<in> rk_agent_name ` set rankings"
    by force+
  have "hd rankings = r0"
    using *(1) by simp
  with w *(3,4,5) show ?thesis
    by simp
qed

lemma rotation_need_best_active:
  assumes "rankings \<noteq> []" and "rk_agent_name (hd rankings) \<in> set active"
  shows "rotation_need active rankings regime now_id now_ts = None"
proof (cases "rotation_need active rankings regime now_id now_ts")
  case None
  then show ?thesis .
next
  case (Some d)
  from rotation_need_members [OF this] assms show ?thesis
    by metis
qed

lemma rotation_need_no_active:
  assumes "\<forall>r \<in> set rankings. rk_agent_name r \<notin> set active"
  shows "rotation_need active rankings regime now_id now_ts = None"
proof (cases "rotation_need active rankings regime now_id now_ts")
  case None
  then show ?thesis .
next
  case (Some d)
  from rotation_need_members [OF this] assms show ?thesis
    by auto
qed

lemma rotation_need_short:
  "length rankings < 2 \<Longrightarrow> rotation_need active rankings regime now_id now_ts = None"
  by (simp add: rotation_need_def rotation_body_def)

text \<open>
  C5. The source agent of every emitted decision is a member of the active set (and of
  the ranking) and the target agent, the best-ranked one, is not a member of the active
  set. No decision is produced if the best-ranked agent is active, if the ranking has
  fewer than 2 entries, or if no active agent appears in the ranking.
\<close>

theorem rotation_membership:
  "(rotation_need active rankings regime now_id now_ts = Some d \<longrightarrow>
      dec_from_agent d \<in> set active \<and> dec_to_agent d \<notin> set active \<and>
      dec_from_agent d \<in> rk_agent_name ` set rankings \<and>
      dec_to_agent d = rk_agent_name (hd rankings)) \<and>
   (rankings \<noteq> [] \<and> rk_agent_name (hd rankings) \<in> set active \<longrightarrow>
      rotation_need active rankings regime now_id now_ts = None) \<and>
   (length rankings < 2 \<longrightarrow> rotation_need active rankings regime now_id now_ts = None) \<and>
   ((\<forall>r \<in> set rankings. rk_agent_name r \<notin> set active) \<longrightarrow>
      rotation_need active rankings regime now_id now_ts = None)"
  using rotation_need_members [of active rankings regime now_id now_ts d]
    rotation_need_best_active [of rankings active regime now_id now_ts]
    rotation_need_no_active [of rankings active regime now_id now_ts]
    rotation_need_short [of rankings active regime now_id now_ts]
  by blast

text \<open>
  C7 (amended). For the same ranking, active set and regime, two runs yield the same
  non-decision, or two decisions that agree on source agent, target agent, reason,
  confidence, expected improvement and regime. The decision identifier is \<open>rotation_\<close>
  followed by the run's first clock reading rendered to the second, and the timestamp is
  the run's second clock reading: two emitted decisions are equal in all fields exactly
  when the two renderings are equal and the two timestamp readings are equal.
\<close>

theorem rotation_deterministic_up_to_clock:
  "rotation_need active rankings regime now_id now_ts =
     map_option (\<lambda>d. d\<lparr> dec_decision_id := ''rotation_'' @ strftime_Ymd_HMS now_id, dec_timestamp := now_ts \<rparr>)
       (rotation_need active rankings regime now_id' now_ts') \<and>
   (rotation_need active rankings regime now_id' now_ts' \<noteq> None \<longrightarrow>
      (rotation_need active rankings regime now_id now_ts =
         rotation_need active rankings regime now_id' now_ts' \<longleftrightarrow>
       strftime_Ymd_HMS now_id = strftime_Ymd_HMS now_id' \<and> now_ts = now_ts'))"
proof (cases "rotation_need active rankings regime now_id' now_ts'")
  case None
  have "rotation_need active rankings regime now_id now_ts = None"
  proof (cases "rotation_need active rankings regime now_id now_ts")
    case None
    then show ?thesis .
  next
    case (Some d)
    from rotation_need_Some [OF this] obtain r0 rest w worst_score where
      "rankings = r0 # rest" "rest \<noteq> []" "worst_active active rankings = Some w" "w \<noteq> []"
      "rk_agent_name r0 \<notin> set active" "score_of w rankings = Inr worst_score"
      "rk_composite_score r0 - worst_score > 0.1"
      by blast
    from rotation_need_emits [OF this, of regime now_id' now_ts'] None show ?thesis
      by simp
  qed
  with None show ?thesis
    by simp
next
  case (Some d)
  from rotation_need_Some [OF this] obtain r0 rest w worst_score where
    c: "rankings = r0 # rest" "rest \<noteq> []" "worst_active active rankings = Some w" "w \<noteq> []"
       "rk_agent_name r0 \<notin> set active" "score_of w rankings = Inr worst_score"
       "rk_composite_score r0 - worst_score > 0.1"
    by blast
  from rotation_need_emits [OF c, of regime now_id now_ts]
       rotation_need_emits [OF c, of regime now_id' now_ts']
  show ?thesis by simp
qed

lemma score_of_repeated_agent:
  "score_of ''ForecastAgent'' repeated_ranking = Inr 0.7 \<and>
   rk_composite_score (last (filter (\<lambda>r. rk_agent_name r \<in> set current_agents) repeated_ranking)) = 0.3"
  by (simp add: score_of_def repeated_ranking_def entry_def current_agents_def)

lemma format_pct2_sample: "format_pct2 (1 / 5) = ''20.00%''"
  by code_simp

lemma rotating_ranking_decision:
  "rotation_need current_agents rotating_ranking ''bull'' now_id now_ts =
   Some (sample_decision now_id now_ts)"
proof -
  have r: "rotating_ranking =
      entry ''SentimentAgent'' 1 0.7 # [entry ''RiskAgent'' 2 0.65, entry ''ForecastAgent'' 3 0.5]"
    by (simp add: rotating_ranking_def)
  have w: "worst_active current_agents rotating_ranking = Some ''ForecastAgent''"
    by (simp add: worst_active_def rotating_ranking_def entry_def current_agents_def)
  have s: "score_of ''ForecastAgent'' rotating_ranking = Inr 0.5"
    by (simp add: score_of_def rotating_ranking_def entry_def)
  have b: "rk_agent_name (entry ''SentimentAgent'' 1 0.7) \<notin> set current_agents"
    by (simp add: entry_def current_agents_def)
  have i: "rk_composite_score (entry ''SentimentAgent'' 1 0.7) - 0.5 > (0.1 :: real)"
    by (simp add: entry_def)
  have "rotation_need current_agents rotating_ranking ''bull'' now_id now_ts =
        Some \<lparr> dec_decision_id = ''rotation_'' @ strftime_Ymd_HMS now_id,
               dec_from_agent = ''ForecastAgent'',
               dec_to_agent = rk_agent_name (entry ''SentimentAgent'' 1 0.7),
               dec_reason = ''Performance improvement: '' @
                 format_pct2 (rk_composite_score (entry ''SentimentAgent'' 1 0.7) - 0.5),
               dec_confidence = min 0.95 ((rk_composite_score (entry ''SentimentAgent'' 1 0.7) - 0.5) * 2),
               dec_expected_improvement = rk_composite_score (entry ''SentimentAgent'' 1 0.7) - 0.5,
               dec_regime = ''bull'',
               dec_timestamp = now_ts \<rparr>"
    by (rule rotation_need_emits [OF r _ w _ b s i]) simp_all
  moreover have "rk_composite_score (entry ''SentimentAgent'' 1 0.7) - 0.5 = (2 / 10 :: real)"
    by (simp add: entry_def)
  ultimately show ?thesis
    by (simp add: sample_decision_def format_pct2_sample entry_def)
qed

lemma sample_decision_ids:
  "dec_decision_id (sample_decision sample_time now_ts) = ''rotation_20260102_030405''"
  "dec_decision_id (sample_decision later_time now_ts) = ''rotation_20260102_030406''"
  by code_simp+

theorem rotation_threshold_witness:
  "rotation_need current_agents threshold_ranking ''bull'' sample_time later_time = None \<and>
   rotation_need current_agents rotating_ranking ''bull'' sample_time later_time =
     Some (sample_decision sample_time later_time) \<and>
   dec_confidence (sample_decision sample_time later_time) = min 0.95 ((0.7 - 0.5) * 2) \<and>
   dec_expected_improvement (sample_decision sample_time later_time) = 0.7 - 0.5"
proof -
  have r: "threshold_ranking = entry ''SentimentAgent'' 1 0.7 # [entry ''ForecastAgent'' 2 0.6]"
    by (simp add: threshold_ranking_def)
  have w: "worst_active current_agents threshold_ranking = Some ''ForecastAgent''"
    by (simp add: worst_active_def threshold_ranking_def entry_def current_agents_def)
  have s: "score_of ''ForecastAgent'' threshold_ranking = Inr 0.6"
    by (simp add: score_of_def threshold_ranking_def entry_def)
  have i: "rk_composite_score (entry ''SentimentAgent'' 1 0.7) - 0.6 \<le> (0.1 :: real)"
    by (simp add: entry_def)
  from rotation_threshold [where active = current_agents and rankings = threshold_ranking
      and regime = "''bull''" and now_id = sample_time and now_ts = later_time
      and r0' = "entry ''SentimentAgent'' 1 0.7" and rest' = "[entry ''ForecastAgent'' 2 0.6]"
      and w = "''ForecastAgent''" and worst_score' = "0.6"] r w s i
  have n: "rotation_need current_agents threshold_ranking ''bull'' sample_time later_time = None"
    by blast
  have c: "dec_confidence (sample_decision sample_time later_time) = min 0.95 ((0.7 - 0.5) * 2)"
          "dec_expected_improvement (sample_decision sample_time later_time) = 0.7 - 0.5"
    by (simp_all add: sample_decision_def)
  from n rotating_ranking_decision c show ?thesis by blast
qed

theorem rotation_membership_witness:
  "rotation_need current_agents rotating_ranking ''bull'' sample_time later_time =
     Some (sample_decision sample_time later_time) \<and>
   dec_from_agent (sample_decision sample_time later_time) \<in> set current_agents \<and>
   dec_to_agent (sample_decision sample_time later_time) \<notin> set current_agents \<and>
   rotation_need current_agents best_active_ranking ''bull'' sample_time later_time = None"
proof -
  note e = rotating_ranking_decision [of sample_time later_time]
  have b: "best_active_ranking \<noteq> [] \<and> rk_agent_name (hd best_active_ranking) \<in> set current_agents"
    by (simp add: best_active_ranking_def entry_def current_agents_def)
  from rotation_membership [of current_agents rotating_ranking "''bull''" sample_time later_time
      "sample_decision sample_time later_time"] e
  have m: "dec_from_agent (sample_decision sample_time later_time) \<in> set current_agents \<and>
           dec_to_agent (sample_decision sample_time later_time) \<notin> set current_agents"
    by blast
  from rotation_membership [of current_agents best_active_ranking "''bull''" sample_time later_time] b
  have "rotation_need current_agents best_active_ranking ''bull'' sample_time later_time = None"
    by blast
  with e m show ?thesis by blast
qed

text \<open>
  Two runs half a second apart within one second carry the same identifier and differ
  in the timestamp.
\<close>

theorem rotation_deterministic_up_to_clock_witness:
  "strftime_Ymd_HMS sample_time = strftime_Ymd_HMS half_second_later \<and>
   map_option dec_decision_id
     (rotation_need current_agents rotating_ranking ''bull'' sample_time sample_time) =
   map_option dec_decision_id
     (rotation_need current_agents rotating_ranking ''bull'' half_second_later half_second_later) \<and>
   rotation_need current_agents rotating_ranking ''bull'' sample_time sample_time \<noteq>
   rotation_need current_agents rotating_ranking ''bull'' half_second_later half_second_later"
proof -
  have s: "strftime_Ymd_HMS sample_time = strftime_Ymd_HMS half_second_later"
    by (simp add: strftime_Ymd_HMS_def half_second_later_def)
  have t: "sample_time \<noteq> half_second_later"
    by (simp add: sample_time_def half_second_later_def)
  note a = rotating_ranking_decision [of sample_time sample_time]
  note b = rotating_ranking_decision [of half_second_later half_second_later]
  from a b s have i: "map_option dec_decision_id
     (rotation_need current_agents rotating_ranking ''bull'' sample_time sample_time) =
   map_option dec_decision_id
     (rotation_need current_agents rotating_ranking ''bull'' half_second_later half_second_later)"
    by (simp add: sample_decision_def)
  from b have "rotation_need current_agents rotating_ranking ''bull'' half_second_later half_second_later \<noteq> None"
    by simp
  with rotation_deterministic_up_to_clock [of current_agents rotating_ranking "''bull''"
      sample_time sample_time half_second_later half_second_later] t
  have "rotation_need current_agents rotating_ranking ''bull'' sample_time sample_time \<noteq>
   rotation_need current_agents rotating_ranking ''bull'' half_second_later half_second_later"
    by blast
  with s i show ?thesis by blast
qed

text \<open>
  Two runs on the same ranking, active set and regime, one second apart, yield
  decisions that differ in identifier and timestamp.
\<close>

theorem rotation_clock_counterexample:
  "rotation_need current_agents rotating_ranking ''bull'' sample_time sample_time =
     Some (sample_decision sample_time sample_time) \<and>
   rotation_need current_agents rotating_ranking ''bull'' later_time later_time =
     Some (sample_decision later_time later_time) \<and>
   dec_decision_id (sample_decision sample_time sample_time) = ''rotation_20260102_030405'' \<and>
   dec_decision_id (sample_decision later_time later_time) = ''rotation_20260102_030406'' \<and>
   rotation_need current_agents rotating_ranking ''bull'' sample_time sample_time \<noteq>
   rotation_need current_agents rotating_ranking ''bull'' later_time later_time"
proof -
  note a = rotating_ranking_decision [of sample_time sample_time]
  note b = rotating_ranking_decision [of later_time later_time]
  note c = sample_decision_ids(1) [of sample_time]
  note d = sample_decision_ids(2) [of later_time]
  from c d have "dec_decision_id (sample_decision sample_time sample_time) \<noteq>
      dec_decision_id (sample_decision later_time later_time)"
    by simp
  then have "sample_decision sample_time sample_time \<noteq> sample_decision later_time later_time"
    by (rule contrapos_nn) (rule arg_cong)
  with a b c d show ?thesis by simp
qed

text \<open>
  On a ranking sorted by descending score, the expected improvement an emitted decision
  carries exceeds 0.10 and is at most the best composite score minus the score of the
  candidate's entry: a decision is emitted only when that difference exceeds 0.10.
\<close>

lemma find_sorted_first:
  "sorted_wrt (\<lambda>a b. k a \<ge> k b) xs \<Longrightarrow> find P xs = Some x \<Longrightarrow> y \<in> set xs \<Longrightarrow> P y \<Longrightarrow>
   (k y :: real) \<le> k x"
  by (induction xs) (auto split: if_splits)

lemma rotation_entry_improvement:
  assumes "sorted_wrt (\<lambda>a b. rk_composite_score a \<ge> rk_composite_score b) rankings"
    and "rotation_need active rankings regime now_id now_ts = Some d"
  shows "0.1 < dec_expected_improvement d \<and>
         dec_expected_improvement d \<le>
           rk_composite_score (hd rankings) -
           rk_composite_score (last (filter (\<lambda>r. rk_agent_name r \<in> set active) rankings))"
proof -
  let ?P = "\<lambda>r. rk_agent_name r \<in> set active"
  let ?e = "last (filter ?P rankings)"
  from rotation_need_Some [OF assms(2)] obtain r0 rest w worst_score where
    *: "rankings = r0 # rest" "worst_active active rankings = Some w"
       "score_of w rankings = Inr worst_score" "rk_composite_score r0 - worst_score > 0.1"
       "dec_expected_improvement d = rk_composite_score r0 - worst_score"
    by auto
  from *(2) have "\<exists>r \<in> set rankings. ?P r"
    using worst_active_Some [of active rankings w] by auto
  then have ne: "filter ?P rankings \<noteq> []"
    by (simp add: filter_empty_conv)
  then have "find ?P (rev rankings) = Some ?e"
    by (rule find_rev_last)
  with *(2) have w: "w = rk_agent_name ?e"
    by (simp add: worst_active_def)
  from ne have "?e \<in> set (filter ?P rankings)"
    by (rule last_in_set)
  then have e_in: "?e \<in> set rankings"
    by simp
  from *(3) obtain r1 where r1: "find (\<lambda>r. rk_agent_name r = w) rankings = Some r1"
      "worst_score = rk_composite_score r1"
    by (auto simp: score_of_def split: option.splits)
  from assms(1) r1(1) e_in w have "rk_composite_score ?e \<le> rk_composite_score r1"
    by (intro find_sorted_first [where P = "\<lambda>r. rk_agent_name r = w"]) simp_all
  with * r1(2) show ?thesis
    by simp
qed

text \<open>
  C4. A decision is to be emitted only when the improvement, the best composite score
  minus the composite score of the rotation candidate (the entry met first from the end
  of the ranking whose agent is active), exceeds 0.10, and is to carry confidence
  \<open>min 0.95 (improvement * 2)\<close> and that improvement. The code on three stored records
  of one regime, two of them of ForecastAgent: the ranking is SentimentAgent 0.826,
  ForecastAgent 0.578, ForecastAgent 0.33, the candidate is the entry of score 0.33, and
  the decision carries the expected improvement \<open>0.826 - 0.578 = 0.248\<close> and the
  confidence 0.496, not \<open>0.826 - 0.33 = 0.496\<close> and 0.95: the score is looked up by
  agent name and the first entry of that name is the agent's best one.
\<close>

theorem rotation_repeated_agent:
  "map rk_agent_name (calculate_regime_rankings (Inr repeated_rows) zero_draws ''bull'') =
     [''SentimentAgent'', ''ForecastAgent'', ''ForecastAgent''] \<and>
   map rk_composite_score (calculate_regime_rankings (Inr repeated_rows) zero_draws ''bull'') =
     [0.826, 0.578, 0.33] \<and>
   rk_composite_score (last (filter (\<lambda>r. rk_agent_name r \<in> set current_agents)
     (calculate_regime_rankings (Inr repeated_rows) zero_draws ''bull''))) = 0.33 \<and>
   evaluate_rotation_need (Inr repeated_rows) zero_draws ''bull'' sample_time later_time =
     Some repeated_decision \<and>
   dec_expected_improvement repeated_decision = 0.826 - 0.578 \<and>
   dec_expected_improvement repeated_decision \<noteq> 0.826 - 0.33 \<and>
   dec_confidence repeated_decision \<noteq> min 0.95 ((0.826 - 0.33) * 2)"
proof -
  have n: "map rk_agent_name (calculate_regime_rankings (Inr repeated_rows) zero_draws ''bull'') =
     [''SentimentAgent'', ''ForecastAgent'', ''ForecastAgent'']"
    by code_simp
  have s: "map rk_composite_score (calculate_regime_rankings (Inr repeated_rows) zero_draws ''bull'') =
     [0.826, 0.578, 0.33]"
    by code_simp
  have c: "rk_composite_score (last (filter (\<lambda>r. rk_agent_name r \<in> set current_agents)
     (calculate_regime_rankings (Inr repeated_rows) zero_draws ''bull''))) = 0.33"
    by code_simp
  have e: "evaluate_rotation_need (Inr repeated_rows) zero_draws ''bull'' sample_time later_time =
     Some repeated_decision"
    by code_simp
  have d: "dec_expected_improvement repeated_decision = 0.826 - 0.578"
    "dec_expected_improvement repeated_decision \<noteq> 0.826 - 0.33"
    "dec_confidence repeated_decision \<noteq> min 0.95 ((0.826 - 0.33) * 2)"
    by (simp_all add: repeated_decision_def)
  from n s c e d show ?thesis by blast
qed

section \<open>Summary read: verified properties\<close>

text \<open>
  C6 (amended). Two calls of the summary read to which the store gives the same answers
  return payloads that agree on every field except \<open>last_updated\<close>, which is the ISO
  rendering of the clock at each call.
\<close>

theorem summary_up_to_clock:
  "get_meta_evaluation_summary db now =
   (get_meta_evaluation_summary db now')\<lparr> sum_last_updated := isoformat now \<rparr>"
  by (simp add: get_meta_evaluation_summary_def summary_body_def Let_def split: sum.splits)

lemma isoformat_samples:
  "isoformat sample_time = ''2026-01-02T03:04:05''"
  "isoformat later_time = ''2026-01-02T03:04:06''"
  by code_simp+

text \<open>
  Two calls one second apart on the same, unchanged store return different payloads.
\<close>

theorem summary_clock_counterexample:
  "sum_last_updated (get_meta_evaluation_summary empty_store sample_time) = ''2026-01-02T03:04:05'' \<and>
   sum_last_updated (get_meta_evaluation_summary empty_store later_time) = ''2026-01-02T03:04:06'' \<and>
   get_meta_evaluation_summary empty_store sample_time \<noteq>
   get_meta_evaluation_summary empty_store later_time"
proof -
  have a: "sum_last_updated (get_meta_evaluation_summary empty_store sample_time) = ''2026-01-02T03:04:05''"
    by (simp add: get_meta_evaluation_summary_def summary_body_def empty_store_def isoformat_samples)
  have b: "sum_last_updated (get_meta_evaluation_summary empty_store later_time) = ''2026-01-02T03:04:06''"
    by (simp add: get_meta_evaluation_summary_def summary_body_def empty_store_def isoformat_samples)
  from a b have "sum_last_updated (get_meta_evaluation_summary empty_store sample_time) \<noteq>
      sum_last_updated (get_meta_evaluation_summary empty_store later_time)"
    by simp
  then have "get_meta_evaluation_summary empty_store sample_time \<noteq>
      get_meta_evaluation_summary empty_store later_time"
    by (rule contrapos_nn) (rule arg_cong)
  with a b show ?thesis by simp
qed

section \<open>Rotation under outage: verified properties\<close>

lemma unranked_name: "rk_agent_name (unranked r) = rk_agent_name r"
  by (simp add: unranked_def)

lemma ranked_unranked_set:
  "unranked ` set (assign_ranks (sort_reverse rk_composite_score es)) = unranked ` set es"
proof -
  have "set (map unranked (assign_ranks (sort_reverse rk_composite_score es))) =
        set (map unranked (sort_reverse rk_composite_score es))"
    by (simp only: map_unranked_assign_ranks)
  then show ?thesis
    by (simp add: set_sort_reverse)
qed

lemma ranked_from_input:
  assumes "r \<in> set (assign_ranks (sort_reverse rk_composite_score es))"
  shows "\<exists>e \<in> set es. rk_agent_name e = rk_agent_name r \<and> rk_composite_score e = rk_composite_score r"
proof -
  from assms have "unranked r \<in> unranked ` set es"
    using ranked_unranked_set [of es] by blast
  then obtain e where "e \<in> set es" "unranked r = unranked e"
    by blast
  then show ?thesis
    by (metis unranked_name unranked_score)
qed

lemma input_in_ranked:
  assumes "e \<in> set es"
  shows "\<exists>r \<in> set (assign_ranks (sort_reverse rk_composite_score es)).
           rk_agent_name r = rk_agent_name e \<and> rk_composite_score r = rk_composite_score e"
proof -
  from assms have "unranked e \<in> unranked ` set (assign_ranks (sort_reverse rk_composite_score es))"
    using ranked_unranked_set [of es] by blast
  then obtain r where "r \<in> set (assign_ranks (sort_reverse rk_composite_score es))" "unranked e = unranked r"
    by blast
  then show ?thesis
    by (metis unranked_name unranked_score)
qed

lemma ranked_distinct_names:
  assumes "distinct (map rk_agent_name es)"
  shows "distinct (map rk_agent_name (assign_ranks (sort_reverse rk_composite_score es)))"
proof -
  have "mset (map rk_agent_name (assign_ranks (sort_reverse rk_composite_score es))) =
        mset (map rk_agent_name es)"
    by (simp add: map_name_assign_ranks mset_sort_reverse)
  then show ?thesis
    using assms mset_eq_imp_distinct_iff by blast
qed

lemma sorted_desc_hd_max:
  "sorted_wrt (\<lambda>a b. k a \<ge> k b) (x # xs) \<Longrightarrow> y \<in> set (x # xs) \<Longrightarrow> (k y :: real) \<le> k x"
  by auto

lemma sorted_desc_last_min:
  "sorted_wrt (\<lambda>a b. k a \<ge> k b) xs \<Longrightarrow> y \<in> set xs \<Longrightarrow> (k (last xs) :: real) \<le> k y"
proof (induction xs)
  case Nil
  then show ?case by simp
next
  case (Cons x xs)
  then show ?case by (cases xs) auto
qed


lemma ranked_rotation_iff:
  fixes es as ns :: "ranking list"
  assumes es: "es = as @ ns"
    and act: "\<forall>r \<in> set as. rk_agent_name r \<in> set active"
    and nact: "\<forall>r \<in> set ns. rk_agent_name r \<notin> set active"
    and ne: "as \<noteq> []" and len: "2 \<le> length es"
    and dist: "distinct (map rk_agent_name es)"
    and names: "\<forall>r \<in> set es. rk_agent_name r \<noteq> []"
  shows "rotation_need active (assign_ranks (sort_reverse rk_composite_score es)) regime now_id now_ts \<noteq> None \<longleftrightarrow>
         (\<exists>n \<in> set ns. (\<forall>a \<in> set as. rk_composite_score a < rk_composite_score n) \<and>
                        (\<exists>a \<in> set as. rk_composite_score n - rk_composite_score a > 0.1))"
proof -
  let ?rk = "assign_ranks (sort_reverse rk_composite_score es)"
  let ?P = "\<lambda>r. rk_agent_name r \<in> set active"
  let ?k = rk_composite_score
  have srt: "sorted_wrt (\<lambda>a b. ?k a \<ge> ?k b) ?rk"
    using ranked_stable_descending [of es] by (simp add: stable_descending_def)
  have stab: "filter (\<lambda>r. ?k r = c) (map unranked ?rk) = filter (\<lambda>r. ?k r = c) (map unranked es)" for c
    using ranked_stable_descending [of es] by (simp add: stable_descending_def)
  have lrk: "length ?rk = length es"
    by (simp add: length_assign_ranks length_sort_reverse)
  obtain r0 rest where rk: "?rk = r0 # rest" and rest: "rest \<noteq> []"
  proof (cases ?rk)
    case Nil
    with len lrk show ?thesis by simp
  next
    case (Cons x xs)
    with len lrk have "xs \<noteq> []" by auto
    with Cons that show ?thesis by blast
  qed
  have dn: "distinct (map rk_agent_name ?rk)"
    using dist by (rule ranked_distinct_names)
  obtain a0 where a0: "a0 \<in> set as"
    using ne by (cases as) auto
  then obtain ra where ra: "ra \<in> set ?rk" "rk_agent_name ra = rk_agent_name a0"
    using input_in_ranked [of a0 es] es by auto
  from act a0 ra(2) have "?P ra"
    by simp
  with ra(1) have "ra \<in> set (filter ?P ?rk)"
    by simp
  then have fne: "filter ?P ?rk \<noteq> []"
    by (metis empty_iff empty_set)
  let ?ew = "last (filter ?P ?rk)"
  have wa: "worst_active active ?rk = Some (rk_agent_name ?ew)"
    using find_rev_last [OF fne] by (simp add: worst_active_def)
  have so: "score_of (rk_agent_name ?ew) ?rk = Inr (?k ?ew)"
    using score_of_worst_active_distinct [OF dn wa] .
  have "?ew \<in> set (filter ?P ?rk)"
    using fne by (rule last_in_set)
  then have ew_in: "?ew \<in> set ?rk" and ew_act: "?P ?ew"
    by simp_all
  have ew_min: "?k ?ew \<le> ?k r" if "r \<in> set ?rk" "?P r" for r
  proof -
    have "sorted_wrt (\<lambda>a b. ?k a \<ge> ?k b) (filter ?P ?rk)"
      using srt by (rule sorted_wrt_filter)
    moreover have "r \<in> set (filter ?P ?rk)"
      using that by simp
    ultimately show ?thesis
      by (rule sorted_desc_last_min)
  qed
  have ew_le_as: "?k ?ew \<le> ?k a" if "a \<in> set as" for a
  proof -
    from that obtain r where "r \<in> set ?rk" "rk_agent_name r = rk_agent_name a" "?k r = ?k a"
      using input_in_ranked [of a es] es by auto
    with act that ew_min [of r] show ?thesis by simp
  qed
  obtain e where e: "e \<in> set es" "rk_agent_name e = rk_agent_name ?ew" "?k e = ?k ?ew"
    using ranked_from_input [OF ew_in] by blast
  with ew_act nact es have e_as: "e \<in> set as"
    by auto
  have w_ne: "rk_agent_name ?ew \<noteq> []"
    using e names by metis
  have r0_max: "?k r \<le> ?k r0" if "r \<in> set ?rk" for r
    using srt that unfolding rk by (rule sorted_desc_hd_max)
  show ?thesis
  proof
    assume "rotation_need active ?rk regime now_id now_ts \<noteq> None"
    then obtain d where "rotation_need active ?rk regime now_id now_ts = Some d"
      by auto
    from rotation_need_Some [OF this] rk wa so
    have r0n: "rk_agent_name r0 \<notin> set active" and imp: "?k r0 - ?k ?ew > 0.1"
      by auto
    have "r0 \<in> set ?rk"
      by (simp add: rk)
    from ranked_from_input [OF this] obtain n where
      n: "n \<in> set es" "rk_agent_name n = rk_agent_name r0" "?k n = ?k r0"
      by blast
    with r0n act es have nn: "n \<in> set ns"
      by auto
    have strict: "?k a < ?k n" if a: "a \<in> set as" for a
    proof (rule ccontr)
      assume "\<not> ?k a < ?k n"
      moreover from a obtain r where "r \<in> set ?rk" "?k r = ?k a"
        using input_in_ranked [of a es] es by auto
      then have "?k a \<le> ?k r0"
        using r0_max [of r] by simp
      ultimately have eq: "?k a = ?k r0"
        using n(3) by simp
      let ?F = "filter (\<lambda>r. ?k r = ?k r0)"
      have l: "?F (map unranked ?rk) = unranked r0 # ?F (map unranked rest)"
        by (simp add: rk unranked_score)
      have r: "?F (map unranked es) = ?F (map unranked as) @ ?F (map unranked ns)"
        by (simp add: es)
      have "unranked a \<in> set (?F (map unranked as))"
        using a eq by (simp add: unranked_score)
      then have nonempty: "?F (map unranked as) \<noteq> []"
        by (metis empty_iff empty_set)
      from stab [of "?k r0"] l r have "unranked r0 # ?F (map unranked rest) =
          ?F (map unranked as) @ ?F (map unranked ns)"
        by simp
      with nonempty have "unranked r0 = hd (?F (map unranked as))"
        by (metis hd_append2 list.sel(1))
      with nonempty have "unranked r0 \<in> set (?F (map unranked as))"
        by (metis hd_in_set)
      then obtain a' where "a' \<in> set as" "unranked r0 = unranked a'"
        by auto
      then have "a' \<in> set as" "rk_agent_name r0 = rk_agent_name a'"
        by (metis, metis unranked_name)
      with act r0n show False
        by auto
    qed
    from e e_as imp n(3) have "e \<in> set as \<and> ?k n - ?k e > 0.1"
      by simp
    with nn strict show "\<exists>n \<in> set ns. (\<forall>a \<in> set as. ?k a < ?k n) \<and> (\<exists>a \<in> set as. ?k n - ?k a > 0.1)"
      by blast
  next
    assume "\<exists>n \<in> set ns. (\<forall>a \<in> set as. ?k a < ?k n) \<and> (\<exists>a \<in> set as. ?k n - ?k a > 0.1)"
    then obtain n a where n: "n \<in> set ns" "\<forall>a \<in> set as. ?k a < ?k n" "a \<in> set as" "?k n - ?k a > 0.1"
      by blast
    from n(1) obtain rn where "rn \<in> set ?rk" "?k rn = ?k n"
      using input_in_ranked [of n es] es by auto
    then have n_le: "?k n \<le> ?k r0"
      using r0_max [of rn] by simp
    have r0n: "rk_agent_name r0 \<notin> set active"
    proof
      assume r0a: "rk_agent_name r0 \<in> set active"
      have "r0 \<in> set ?rk"
        by (simp add: rk)
      from ranked_from_input [OF this] obtain e0 where
        e0: "e0 \<in> set es" "rk_agent_name e0 = rk_agent_name r0" "?k e0 = ?k r0"
        by blast
      with r0a nact es have "e0 \<in> set as"
        by auto
      with n(2) have "?k e0 < ?k n"
        by blast
      with n_le e0(3) show False
        by simp
    qed
    from ew_le_as [OF n(3)] n_le n(4) have imp: "?k r0 - ?k ?ew > 0.1"
      by simp
    from rotation_need_emits [OF rk rest wa w_ne r0n so imp, of regime now_id now_ts]
    show "rotation_need active ?rk regime now_id now_ts \<noteq> None"
      by simp
  qed
qed


lemma gap_iff_Max_Min:
  fixes A N :: "real set"
  assumes "finite A" "A \<noteq> {}" "finite N" "N \<noteq> {}"
  shows "(\<exists>n \<in> N. (\<forall>a \<in> A. a < n) \<and> (\<exists>a \<in> A. n - a > c)) \<longleftrightarrow>
         (Max A < Max N \<and> Max N - Min A > c)"
proof
  assume "\<exists>n \<in> N. (\<forall>a \<in> A. a < n) \<and> (\<exists>a \<in> A. n - a > c)"
  then obtain n a where n: "n \<in> N" "\<forall>a \<in> A. a < n" "a \<in> A" "n - a > c"
    by blast
  have "Max A \<in> A"
    using assms(1,2) by (rule Max_in)
  with n(2) have "Max A < n"
    by blast
  moreover have "n \<le> Max N"
    using assms(3) n(1) by (rule Max_ge)
  moreover have "Min A \<le> a"
    using assms(1) n(3) by (rule Min_le)
  ultimately show "Max A < Max N \<and> Max N - Min A > c"
    using n(4) by simp
next
  assume a: "Max A < Max N \<and> Max N - Min A > c"
  have "Max N \<in> N"
    using assms(3,4) by (rule Max_in)
  moreover have "\<forall>x \<in> A. x < Max N"
  proof
    fix x assume "x \<in> A"
    with assms(1) have "x \<le> Max A" by (rule Max_ge)
    with a show "x < Max N" by simp
  qed
  moreover have "Min A \<in> A"
    using assms(1,2) by (rule Min_in)
  ultimately show "\<exists>n \<in> N. (\<forall>a \<in> A. a < n) \<and> (\<exists>a \<in> A. n - a > c)"
    using a by blast
qed

lemma gap_image:
  "(\<exists>n \<in> S. (\<forall>a \<in> T. k a < k n) \<and> (\<exists>a \<in> T. k n - k a > c)) \<longleftrightarrow>
   (\<exists>n \<in> k ` S. (\<forall>a \<in> k ` T. a < n) \<and> (\<exists>a \<in> k ` T. n - a > (c :: real)))"
  by blast

lemma fallback_entry_fields:
  "rk_agent_name (fallback_entry rnd (i, agent)) = agent"
  "rk_composite_score (fallback_entry rnd (i, agent)) = fallback_score rnd i"
  by (simp_all add: fallback_entry_def fallback_score_def Let_def)

lemma upt_3: "{0..<3::nat} = {0, 1, 2}"
  by auto

lemma upt_3_10: "{3..<10::nat} = {3, 4, 5, 6, 7, 8, 9}"
  by auto

lemma fallback_rotation_iff:
  "rotation_need current_agents (get_fallback_rankings rnd regime) regime' now_id now_ts \<noteq> None \<longleftrightarrow>
   (Max (active_scores rnd) < Max (other_scores rnd) \<and>
    Max (other_scores rnd) - Min (active_scores rnd) > 0.1)"
proof -
  define as where "as = [fallback_entry rnd (0, ''ForecastAgent''), fallback_entry rnd (1, ''MomentumAgent''),
              fallback_entry rnd (2, ''VolatilityAgent'')]"
  define ns where "ns = [fallback_entry rnd (3, ''SentimentAgent''), fallback_entry rnd (4, ''RiskAgent''),
              fallback_entry rnd (5, ''CorrelationAgent''), fallback_entry rnd (6, ''StrategyAgent''),
              fallback_entry rnd (7, ''RLStrategyAgent''), fallback_entry rnd (8, ''EventImpactAgent''),
              fallback_entry rnd (9, ''DayForecastAgent'')]"
  define es where "es = map (fallback_entry rnd) (enumerate 0 agents)"
  have es: "es = as @ ns"
    by (simp add: es_def as_def ns_def agents_def eval_nat_numeral)
  have act: "\<forall>r \<in> set as. rk_agent_name r \<in> set current_agents"
    by (simp add: as_def fallback_entry_fields current_agents_def)
  have nact: "\<forall>r \<in> set ns. rk_agent_name r \<notin> set current_agents"
    by (simp add: ns_def fallback_entry_fields current_agents_def)
  have ne: "as \<noteq> []"
    by (simp add: as_def)
  have len: "2 \<le> length es"
    by (simp add: es as_def ns_def)
  have "map rk_agent_name es = agents"
    by (simp add: es as_def ns_def fallback_entry_fields agents_def)
  moreover have "distinct agents"
    by (simp add: agents_def)
  ultimately have dist: "distinct (map rk_agent_name es)"
    by simp
  have names: "\<forall>r \<in> set es. rk_agent_name r \<noteq> []"
    by (simp add: es as_def ns_def fallback_entry_fields)
  have sa: "rk_composite_score ` set as = active_scores rnd"
    by (simp add: as_def active_scores_def upt_3 fallback_entry_fields)
  have sn: "rk_composite_score ` set ns = other_scores rnd"
    by (simp add: ns_def other_scores_def upt_3_10 fallback_entry_fields)
  have fin: "finite (active_scores rnd)" "active_scores rnd \<noteq> {}"
            "finite (other_scores rnd)" "other_scores rnd \<noteq> {}"
    by (simp_all add: active_scores_def other_scores_def)
  have "rotation_need current_agents (assign_ranks (sort_reverse rk_composite_score es))
          regime' now_id now_ts \<noteq> None \<longleftrightarrow>
        (\<exists>n \<in> set ns. (\<forall>a \<in> set as. rk_composite_score a < rk_composite_score n) \<and>
                        (\<exists>a \<in> set as. rk_composite_score n - rk_composite_score a > 0.1))"
    by (rule ranked_rotation_iff [OF es act nact ne len dist names])
  also have "\<dots> \<longleftrightarrow> (\<exists>n \<in> rk_composite_score ` set ns.
                        (\<forall>a \<in> rk_composite_score ` set as. a < n) \<and>
                        (\<exists>a \<in> rk_composite_score ` set as. n - a > 0.1))"
    by (rule gap_image [where k = rk_composite_score and S = "set ns" and T = "set as"])
  also have "\<dots> \<longleftrightarrow> (Max (active_scores rnd) < Max (other_scores rnd) \<and>
                        Max (other_scores rnd) - Min (active_scores rnd) > 0.1)"
    unfolding sa sn using fin by (rule gap_iff_Max_Min)
  finally show ?thesis
    by (simp add: get_fallback_rankings_def es_def)
qed


lemma outage_rankings:
  "calculate_regime_rankings (Inr []) rnd regime = get_fallback_rankings rnd regime"
  "calculate_regime_rankings (Inl e) rnd regime = get_fallback_rankings rnd regime"
  by (simp_all add: calculate_regime_rankings_def rankings_body_def)

text \<open>
  C8 (amended). Without stored performance records, or with a failing fetch, the ranking
  is the synthetic fallback and the engine emits a decision exactly when the highest
  score drawn for a non-active agent is strictly greater than every active agent's
  score and exceeds the lowest active agent's score by more than 0.10; for every other
  draw it emits none.
\<close>

theorem outage_rotation_iff:
  "(evaluate_rotation_need (Inr []) rnd regime now_id now_ts = None \<longleftrightarrow>
      \<not> (Max (active_scores rnd) < Max (other_scores rnd) \<and>
         Max (other_scores rnd) - Min (active_scores rnd) > 0.1)) \<and>
   evaluate_rotation_need (Inl e) rnd regime now_id now_ts =
     evaluate_rotation_need (Inr []) rnd regime now_id now_ts"
proof -
  have a: "evaluate_rotation_need (Inr []) rnd regime now_id now_ts =
      rotation_need current_agents (get_fallback_rankings rnd regime) regime now_id now_ts"
    by (simp add: evaluate_rotation_need_def outage_rankings)
  have b: "evaluate_rotation_need (Inl e) rnd regime now_id now_ts =
      rotation_need current_agents (get_fallback_rankings rnd regime) regime now_id now_ts"
    by (simp add: evaluate_rotation_need_def outage_rankings)
  show ?thesis
    unfolding a b using fallback_rotation_iff [of rnd regime regime now_id now_ts] by blast
qed

theorem outage_rotation_iff_witness:
  "evaluate_rotation_need (Inr []) zero_draws ''neutral'' sample_time later_time = None \<and>
   evaluate_rotation_need (Inl ConnectionError) zero_draws ''neutral'' sample_time later_time = None"
proof -
  have f: "fallback_score zero_draws i = 0.4" for i
    by (simp add: fallback_score_def zero_draws_def uniform_def)
  have a: "active_scores zero_draws = {0.4}"
    by (simp add: active_scores_def f image_constant_conv)
  have o: "other_scores zero_draws = {0.4}"
    by (simp add: other_scores_def f image_constant_conv)
  from outage_rotation_iff [of zero_draws "''neutral''" sample_time later_time ConnectionError] a o
  show ?thesis by simp
qed

text \<open>
  Draws in \<open>[0, 1)\<close> that give the active agents the score 0.4, SentimentAgent 0.7 and
  the others 0.5: without any stored record the engine emits a rotation from
  VolatilityAgent to SentimentAgent.
\<close>

theorem outage_rotation_counterexample:
  "unit_draws outage_draws \<and>
   evaluate_rotation_need (Inr []) outage_draws ''neutral'' sample_time later_time = Some outage_decision \<and>
   evaluate_rotation_need (Inr []) outage_draws ''neutral'' sample_time later_time \<noteq> None"
proof -
  have u: "unit_draws outage_draws"
    by (simp add: unit_draws_def outage_draws_def)
  have e: "evaluate_rotation_need (Inr []) outage_draws ''neutral'' sample_time later_time = Some outage_decision"
    by code_simp
  from u e show ?thesis by simp
qed

end
